theory Spec2Isabelle
  imports Complex_Main "HOL-Library.Sublist"
begin

section \<open>Values of the host language\<close>

text \<open>
  A thrown JavaScript \<open>Error\<close> is a value carrying its message; a promise that rejects is
  \<open>Inl\<close> of it, a promise that resolves is \<open>Inr\<close> of the result.
\<close>

datatype error = Error string

fun message :: "error \<Rightarrow> string" where
  "message (Error m) = m"

text \<open>
  Instants are millisecond counts (\<open>Date.getTime\<close>); an ISO-8601 text produced by
  \<open>toISOString\<close> is kept as the instant it denotes.
\<close>

subsection \<open>Numbers\<close>

text \<open>
  A JavaScript number is an IEEE 754 double: \<open>NaN\<close>, an infinity, or a finite value,
  kept as the real it denotes. \<open>to_double\<close> rounds a real to the nearest double, ties to
  the even significand: 53 significant bits, the least exponent \<open>-1022\<close> (below it the
  spacing stays \<open>2^-1074\<close>, so small values round to subnormals and to 0), and a result
  of magnitude \<open>2^1024\<close> or more is an infinity. The sign of a zero is not kept: no
  operation of the code can tell the two zeros apart, the one divisor being a product of
  square roots.
\<close>

datatype number = NaN | PosInfinity | NegInfinity | Num real

definition round_half_even :: "real \<Rightarrow> int" where
  "round_half_even m =
     (let f = \<lfloor>m\<rfloor>
      in if m - of_int f < 1 / 2 then f
         else if m - of_int f > 1 / 2 then f + 1
         else if even f then f else f + 1)"

definition ulp :: "real \<Rightarrow> real" where
  "ulp x = 2 powr of_int (max \<lfloor>log 2 \<bar>x\<bar>\<rfloor> (- 1022) - 52)"

definition overflow_bound :: real where
  "overflow_bound = 2 powr 1024"

definition to_double :: "real \<Rightarrow> number" where
  "to_double x =
     (if x = 0 then Num 0
      else (let y = of_int (round_half_even (x / ulp x)) * ulp x
            in if \<bar>y\<bar> \<ge> overflow_bound then (if x > 0 then PosInfinity else NegInfinity)
               else Num y))"

text \<open>
  The operations the code uses, each the exact result rounded once; \<open>Math.sqrt\<close> is
  taken as the correctly rounded square root. An infinity times zero, the difference of
  equal infinities and the quotient of two infinities or two zeros are \<open>NaN\<close>, and
  \<open>NaN\<close> spreads through every operation; a comparison with \<open>NaN\<close> is false.
\<close>

fun sign :: "number \<Rightarrow> real" where
  "sign NaN = 0"
| "sign PosInfinity = 1"
| "sign NegInfinity = - 1"
| "sign (Num x) = sgn x"

definition infinity :: "real \<Rightarrow> number" where
  "infinity s = (if s > 0 then PosInfinity else if s < 0 then NegInfinity else NaN)"

fun num_add :: "number \<Rightarrow> number \<Rightarrow> number" where
  "num_add (Num x) (Num y) = to_double (x + y)"
| "num_add NaN b = NaN"
| "num_add a NaN = NaN"
| "num_add PosInfinity NegInfinity = NaN"
| "num_add NegInfinity PosInfinity = NaN"
| "num_add PosInfinity b = PosInfinity"
| "num_add NegInfinity b = NegInfinity"
| "num_add a PosInfinity = PosInfinity"
| "num_add a NegInfinity = NegInfinity"

fun num_mul :: "number \<Rightarrow> number \<Rightarrow> number" where
  "num_mul (Num x) (Num y) = to_double (x * y)"
| "num_mul NaN b = NaN"
| "num_mul a NaN = NaN"
| "num_mul a b = infinity (sign a * sign b)"

fun num_div :: "number \<Rightarrow> number \<Rightarrow> number" where
  "num_div (Num x) (Num y) = (if y = 0 then infinity (sgn x) else to_double (x / y))"
| "num_div NaN b = NaN"
| "num_div a NaN = NaN"
| "num_div (Num x) b = Num 0"
| "num_div a (Num y) = infinity (sign a * (if y < 0 then - 1 else 1))"
| "num_div a b = NaN"

fun num_sqrt :: "number \<Rightarrow> number" where
  "num_sqrt (Num x) = (if x < 0 then NaN else to_double (sqrt x))"
| "num_sqrt PosInfinity = PosInfinity"
| "num_sqrt a = NaN"

fun num_gt :: "number \<Rightarrow> number \<Rightarrow> bool" where
  "num_gt (Num x) (Num y) = (x > y)"
| "num_gt PosInfinity (Num y) = True"
| "num_gt PosInfinity NegInfinity = True"
| "num_gt (Num x) NegInfinity = True"
| "num_gt a b = False"

subsection \<open>shared/types.ts\<close>

record QuestConfig =
  title :: string
  description :: string

datatype QuestStatus = pending | executing | completed | failed

datatype QuestLevel = none | strategic | tactical | operational | atomic

record Quest =
  quest_id :: string
  config :: QuestConfig
  quest_status :: QuestStatus
  currentLevel :: QuestLevel
  createdAt :: int
  updatedAt :: int
  quest_error :: "string option"

record OperationalTask =
  task :: string
  suggestedTool :: string

datatype NextState = NextOperational | NextDone

record AtomicResult =
  result_task :: OperationalTask
  outcome :: string
  nextState :: "NextState option"

record KnowledgeItem =
  item_id :: string
  content :: string
  tags :: "string list option"
  source :: "string option"
  item_timestamp :: int

record ToolCall =
  tool :: string
  args :: string

text \<open>
  \<open>ExecutionLog.level\<close> is declared as one of the four level names, but the coordinator
  writes the lower-cased name of its state enum through a cast, so the field is the text
  that is really stored. \<open>LogInput\<close> is \<open>Omit<ExecutionLog, 'id' | 'timestamp'>\<close>.
\<close>

record LogInput =
  questId :: string
  level :: string
  log_input :: string
  log_output :: string
  durationMs :: int
  status :: string
  toolCalls :: "ToolCall list option"
  log_error :: "string option"

record ExecutionLog = LogInput +
  log_id :: string
  log_timestamp :: int

section \<open>The SQL store\<close>

text \<open>
  The three services and the quest repository keep their data in SQLite tables and talk to
  them with SQL text and positional \<open>?\<close> parameters. The part of SQL they use is modelled
  here. A cell is NULL, a text, an integer, or a text in one of the formats the services
  write: an ISO-8601 instant, or the \<open>JSON.stringify\<close> text of an array, kept as the
  array it serialises (\<open>JSON.parse\<close> of it gives the array back). A table is the list of
  its rows in the order of insertion, which is the order of a scan. A statement fails only
  by breaking a constraint of the table; failures of the storage itself are left out.
\<close>

datatype sqlval =
    SNull
  | SText string
  | SInt int
  | SDate int
  | SNumbers "real list"
  | SStrings "string list"
  | SToolCalls "ToolCall list"

type_synonym row = "(string \<times> sqlval) list"
type_synonym table = "row list"

record schema =
  table_name :: string
  columns :: "string list"
  not_null :: "string list"
  primary_key :: string

text \<open>
  The value of the \<open>i\<close>-th placeholder. The driver binds the arguments it is given, in
  order, and does not count them: a placeholder that no argument was bound to is NULL, as
  SQLite reads every unbound parameter, and an argument that is \<open>undefined\<close> binds
  nothing (\<open>js_param\<close>).
\<close>

definition param :: "sqlval list \<Rightarrow> nat \<Rightarrow> sqlval" where
  "param ps i = (if i < length ps then ps ! i else SNull)"

definition js_param :: "sqlval option \<Rightarrow> sqlval" where
  "js_param v = (case v of None \<Rightarrow> SNull | Some x \<Rightarrow> x)"

text \<open>A column inside an SQL expression; a property of a result row read from JavaScript
  (\<open>None\<close> is \<open>undefined\<close>: the row object has the selected columns only).\<close>

definition col :: "row \<Rightarrow> string \<Rightarrow> sqlval" where
  "col r c = (case map_of r c of None \<Rightarrow> SNull | Some v \<Rightarrow> v)"

definition property :: "row \<Rightarrow> string \<Rightarrow> sqlval option" where
  "property r c = map_of r c"

text \<open>\<open>a = b\<close> in a WHERE clause: a comparison with NULL is never true.\<close>

definition sql_eq :: "sqlval \<Rightarrow> sqlval \<Rightarrow> bool" where
  "sql_eq a b = (a \<noteq> SNull \<and> b \<noteq> SNull \<and> a = b)"

text \<open>\<open>INSERT INTO t (cols) VALUES (?, ..., ?)\<close>: the row that the statement offers.\<close>

definition values_row :: "string list \<Rightarrow> sqlval list \<Rightarrow> row" where
  "values_row cols ps = map (\<lambda>i. (cols ! i, param ps i)) [0..<length cols]"

definition not_null_violation :: "schema \<Rightarrow> row \<Rightarrow> string option" where
  "not_null_violation sch r = List.find (\<lambda>c. col r c = SNull) (not_null sch)"

definition same_key :: "schema \<Rightarrow> row \<Rightarrow> row \<Rightarrow> bool" where
  "same_key sch r r' = sql_eq (col r (primary_key sch)) (col r' (primary_key sch))"

definition sql_insert :: "schema \<Rightarrow> row \<Rightarrow> table \<Rightarrow> error + table" where
  "sql_insert sch r t =
     (case not_null_violation sch r of
        Some c \<Rightarrow> Inl (Error (''SQLITE_CONSTRAINT: NOT NULL constraint failed: ''
                              @ table_name sch @ ''.'' @ c))
      | None \<Rightarrow>
          if \<exists>r' \<in> set t. same_key sch r r'
          then Inl (Error (''SQLITE_CONSTRAINT: UNIQUE constraint failed: ''
                            @ table_name sch @ ''.'' @ primary_key sch))
          else Inr (t @ [r]))"

text \<open>\<open>INSERT OR REPLACE\<close>: a row with the same key is deleted and the new row is added at
  the end; NOT NULL still aborts, no column here having a default.\<close>

definition sql_insert_or_replace :: "schema \<Rightarrow> row \<Rightarrow> table \<Rightarrow> error + table" where
  "sql_insert_or_replace sch r t =
     (case not_null_violation sch r of
        Some c \<Rightarrow> Inl (Error (''SQLITE_CONSTRAINT: NOT NULL constraint failed: ''
                              @ table_name sch @ ''.'' @ c))
      | None \<Rightarrow> Inr (filter (\<lambda>r'. \<not> same_key sch r r') t @ [r]))"

definition sql_select_where :: "(row \<Rightarrow> bool) \<Rightarrow> table \<Rightarrow> table" where
  "sql_select_where p t = filter p t"

definition sql_delete_where :: "(row \<Rightarrow> bool) \<Rightarrow> table \<Rightarrow> table" where
  "sql_delete_where p t = filter (\<lambda>r. \<not> p r) t"

definition sql_project :: "string list \<Rightarrow> row \<Rightarrow> row" where
  "sql_project cs r = map (\<lambda>c. (c, col r c)) cs"

section \<open>The outside world\<close>

text \<open>
  What the code asks of its surroundings is an oracle (\<open>env\<close>): the clock, the UUID
  generator, SHA-256, the model client (\<open>embedContent\<close>, \<open>sendMessageStream\<close>) and
  the JSON functions of the language on the values whose text matters. The clock, the
  UUID generator and the model may answer differently each time they are asked, so they
  are indexed by the number of earlier requests, which the \<open>world\<close> counts together
  with the contents of the tables.
\<close>

datatype chunk = Content string | OtherEvent string

record env =
  clock :: "nat \<Rightarrow> int"
  uuidv4 :: "nat \<Rightarrow> string"
  sha256 :: "string \<Rightarrow> string"
  embedContent :: "string \<Rightarrow> error + real list option"
  sendMessageStream :: "nat \<Rightarrow> string \<Rightarrow> string \<Rightarrow> error + chunk list"
  JSON_parse_tasks :: "string \<Rightarrow> OperationalTask list option"
  JSON_stringify_tasks :: "OperationalTask list \<Rightarrow> string"
  JSON_stringify_results :: "AtomicResult list option \<Rightarrow> string"
  JSON_stringify_strings :: "string list \<Rightarrow> string"

record world =
  semantic_cache :: table
  knowledge_items :: table
  execution_logs :: table
  quests :: "Quest list"
  clock_reads :: nat
  uuids_drawn :: nat
  model_calls :: nat

definition Date_now :: "env \<Rightarrow> world \<Rightarrow> int \<times> world" where
  "Date_now e w = (clock e (clock_reads w), w\<lparr>clock_reads := Suc (clock_reads w)\<rparr>)"

definition new_uuid :: "env \<Rightarrow> world \<Rightarrow> string \<times> world" where
  "new_uuid e w = (uuidv4 e (uuids_drawn w), w\<lparr>uuids_drawn := Suc (uuids_drawn w)\<rparr>)"

definition empty_world :: world where
  "empty_world = \<lparr>semantic_cache = [], knowledge_items = [], execution_logs = [],
     quests = [], clock_reads = 0, uuids_drawn = 0, model_calls = 0\<rparr>"

section \<open>LearningEngineService\<close>

definition execution_logs_schema :: schema where
  "execution_logs_schema = \<lparr>table_name = ''execution_logs'',
     columns = [''id'', ''questId'', ''level'', ''input'', ''output'', ''durationMs'',
                ''status'', ''timestamp'', ''toolCalls'', ''error''],
     not_null = [''questId'', ''level'', ''input'', ''output'', ''durationMs'',
                 ''status'', ''timestamp''],
     primary_key = ''id''\<rparr>"

text \<open>\<open>x ? JSON.stringify(x) : null\<close> and \<open>x || null\<close>: an array is truthy even when
  empty, the empty string is falsy.\<close>

definition toolCalls_cell :: "ToolCall list option \<Rightarrow> sqlval" where
  "toolCalls_cell tc = (case tc of None \<Rightarrow> SNull | Some cs \<Rightarrow> SToolCalls cs)"

definition text_or_null :: "string option \<Rightarrow> sqlval" where
  "text_or_null s = (case s of None \<Rightarrow> SNull | Some t \<Rightarrow> if t = [] then SNull else SText t)"

definition logExecution :: "env \<Rightarrow> LogInput \<Rightarrow> world \<Rightarrow> (error + ExecutionLog) \<times> world" where
  "logExecution e entry w =
     (let (uid, w1) = new_uuid e w;
          (now, w2) = Date_now e w1;
          newLog = LogInput.extend entry \<lparr>log_id = uid, log_timestamp = now\<rparr>
      in case sql_insert execution_logs_schema
                (values_row (columns execution_logs_schema)
                   [SText (log_id newLog), SText (questId newLog), SText (level newLog),
                    SText (log_input newLog), SText (log_output newLog),
                    SInt (durationMs newLog), SText (status newLog),
                    SDate (log_timestamp newLog), toolCalls_cell (toolCalls newLog),
                    text_or_null (log_error newLog)])
                (execution_logs w2) of
           Inl err \<Rightarrow> (Inl err, w2)
         | Inr t \<Rightarrow> (Inr newLog, w2\<lparr>execution_logs := t\<rparr>))"

text \<open>A result row as the \<open>ExecutionLog\<close> object the read operations hand out
  (\<open>{...row, toolCalls: row.toolCalls ? JSON.parse(row.toolCalls) : undefined}\<close>).\<close>

definition text_of :: "sqlval \<Rightarrow> string" where
  "text_of v = (case v of SText s \<Rightarrow> s | _ \<Rightarrow> [])"

definition int_of :: "sqlval \<Rightarrow> int" where
  "int_of v = (case v of SInt i \<Rightarrow> i | SDate i \<Rightarrow> i | _ \<Rightarrow> 0)"

definition log_of_row :: "row \<Rightarrow> ExecutionLog" where
  "log_of_row r = \<lparr>questId = text_of (col r ''questId''), level = text_of (col r ''level''),
     log_input = text_of (col r ''input''), log_output = text_of (col r ''output''),
     durationMs = int_of (col r ''durationMs''), status = text_of (col r ''status''),
     toolCalls = (case col r ''toolCalls'' of SToolCalls cs \<Rightarrow> Some cs | _ \<Rightarrow> None),
     log_error = (case col r ''error'' of SText s \<Rightarrow> Some s | _ \<Rightarrow> None),
     log_id = text_of (col r ''id''), log_timestamp = int_of (col r ''timestamp'')\<rparr>"

text \<open>\<open>SELECT * FROM execution_logs\<close>\<close>

definition analyzePastExecutions :: "world \<Rightarrow> error + ExecutionLog list" where
  "analyzePastExecutions w = Inr (map log_of_row (execution_logs w))"

text \<open>\<open>SELECT * FROM execution_logs WHERE questId = ?\<close>, run by \<open>db.all(sql, callback)\<close>:
  the statement gets no argument, the parameter \<open>_questId\<close> is not used.\<close>

definition getLogsByQuestId :: "string \<Rightarrow> world \<Rightarrow> error + ExecutionLog list" where
  "getLogsByQuestId unused_questId w =
     Inr (map log_of_row
            (sql_select_where (\<lambda>r. sql_eq (col r ''questId'') (param [] 0))
               (execution_logs w)))"

section \<open>KnowledgeBaseService\<close>

definition knowledge_items_schema :: schema where
  "knowledge_items_schema = \<lparr>table_name = ''knowledge_items'',
     columns = [''id'', ''content'', ''tags'', ''source'', ''timestamp''],
     not_null = [''content'', ''timestamp''],
     primary_key = ''id''\<rparr>"

text \<open>\<open>Omit<KnowledgeItem, 'id' | 'timestamp'>\<close>, the argument of \<open>addKnowledge\<close>.\<close>

record KnowledgeInput =
  new_content :: string
  new_tags :: "string list option"
  new_source :: "string option"

definition strings_cell :: "string list option \<Rightarrow> sqlval" where
  "strings_cell ts = (case ts of None \<Rightarrow> SNull | Some l \<Rightarrow> SStrings l)"

text \<open>
  \<open>addKnowledge\<close> builds \<open>newItem\<close> and runs the INSERT, whose five placeholders get the
  three arguments \<open>newItem.id\<close>, \<open>newItem.content\<close> and the serialised tags; the fourth
  argument of \<open>db.run\<close> is the callback.
\<close>

definition addKnowledge :: "env \<Rightarrow> KnowledgeInput \<Rightarrow> world \<Rightarrow> (error + KnowledgeItem) \<times> world" where
  "addKnowledge e item w =
     (let (uid, w1) = new_uuid e w;
          (now, w2) = Date_now e w1;
          newItem = \<lparr>item_id = uid, content = new_content item, tags = new_tags item,
                     source = new_source item, item_timestamp = now\<rparr>
      in case sql_insert knowledge_items_schema
                (values_row (columns knowledge_items_schema)
                   [SText (item_id newItem), SText (content newItem),
                    strings_cell (tags newItem)])
                (knowledge_items w2) of
           Inl err \<Rightarrow> (Inl err, w2)
         | Inr t \<Rightarrow> (Inr newItem, w2\<lparr>knowledge_items := t\<rparr>))"

text \<open>
  SQLite's \<open>LIKE\<close>: \<open>%\<close> stands for any run of characters, \<open>_\<close> for one character, and
  ASCII letters match without regard to case.
\<close>

definition toLowerCase_char :: "char \<Rightarrow> char" where
  "toLowerCase_char c =
     (case map_of (zip ''ABCDEFGHIJKLMNOPQRSTUVWXYZ'' ''abcdefghijklmnopqrstuvwxyz'') c of
        Some l \<Rightarrow> l
      | None \<Rightarrow> c)"

definition toLowerCase :: "string \<Rightarrow> string" where
  "toLowerCase s = map toLowerCase_char s"

fun like :: "string \<Rightarrow> string \<Rightarrow> bool" where
  "like [] s = (s = [])"
| "like (p # ps) s =
     (if p = CHR ''%''
      then like ps s \<or> (case s of [] \<Rightarrow> False | _ # cs \<Rightarrow> like (p # ps) cs)
      else (case s of [] \<Rightarrow> False
            | c # cs \<Rightarrow> (p = CHR ''_'' \<or> toLowerCase_char p = toLowerCase_char c) \<and> like ps cs))"

definition sql_like :: "env \<Rightarrow> sqlval \<Rightarrow> string \<Rightarrow> bool" where
  "sql_like e v pat =
     (case v of SText s \<Rightarrow> like pat s
      | SStrings l \<Rightarrow> like pat (JSON_stringify_strings e l)
      | _ \<Rightarrow> False)"

definition sql_limit :: "int \<Rightarrow> table \<Rightarrow> table" where
  "sql_limit n t = (if n < 0 then t else take (nat n) t)"

definition item_of_row :: "row \<Rightarrow> KnowledgeItem" where
  "item_of_row r = \<lparr>item_id = text_of (col r ''id''), content = text_of (col r ''content''),
     tags = (case col r ''tags'' of SStrings l \<Rightarrow> Some l | _ \<Rightarrow> None),
     source = (case col r ''source'' of SText s \<Rightarrow> Some s | _ \<Rightarrow> None),
     item_timestamp = int_of (col r ''timestamp'')\<rparr>"

text \<open>\<open>SELECT * FROM knowledge_items WHERE content LIKE ? OR tags LIKE ? LIMIT ?\<close>\<close>

definition retrieveKnowledge :: "env \<Rightarrow> string \<Rightarrow> int \<Rightarrow> world \<Rightarrow> error + KnowledgeItem list" where
  "retrieveKnowledge e query limit w =
     (let ps = [SText (''%'' @ query @ ''%''), SText (''%'' @ query @ ''%''), SInt limit]
      in Inr (map item_of_row
           (sql_limit (int_of (param ps 2))
              (sql_select_where
                 (\<lambda>r. sql_like e (col r ''content'') (text_of (param ps 0))
                      \<or> sql_like e (col r ''tags'') (text_of (param ps 1)))
                 (knowledge_items w)))))"

section \<open>SemanticCacheService\<close>

definition semantic_cache_schema :: schema where
  "semantic_cache_schema = \<lparr>table_name = ''semantic_cache'',
     columns = [''queryHash'', ''semanticVector'', ''response'', ''timestamp'', ''ttl''],
     not_null = [''response'', ''timestamp''],
     primary_key = ''queryHash''\<rparr>"

definition generateHash :: "env \<Rightarrow> string \<Rightarrow> string" where
  "generateHash e query = sha256 e query"

text \<open>\<open>Array.prototype.reduce\<close> with an initial value; the callback gets the accumulator,
  the element and its index.\<close>

definition reduce :: "('b \<Rightarrow> 'a \<Rightarrow> nat \<Rightarrow> 'b) \<Rightarrow> 'b \<Rightarrow> 'a list \<Rightarrow> 'b" where
  "reduce f init xs = foldl (\<lambda>acc (x, i). f acc x i) init (zip xs [0..<length xs])"

text \<open>An embedding is a list of finite doubles. An index past the end of an array reads
  \<open>undefined\<close>, which is \<open>NaN\<close> as a factor.\<close>

definition at_index :: "real list \<Rightarrow> nat \<Rightarrow> number" where
  "at_index v i = (if i < length v then Num (v ! i) else NaN)"

definition magnitude :: "real list \<Rightarrow> number" where
  "magnitude vec =
     num_sqrt (reduce (\<lambda>acc val i. num_add acc (num_mul (Num val) (Num val))) (Num 0) vec)"

definition cosineSimilarity :: "real list \<Rightarrow> real list \<Rightarrow> number" where
  "cosineSimilarity vec1 vec2 =
     (let dotProduct = reduce (\<lambda>acc val i. num_add acc (num_mul (Num val) (at_index vec2 i)))
                          (Num 0) vec1;
          magnitude1 = magnitude vec1;
          magnitude2 = magnitude vec2
      in if magnitude1 = Num 0 \<or> magnitude2 = Num 0 then Num 0
         else num_div dotProduct (num_mul magnitude1 magnitude2))"

text \<open>\<open>row.ttl && now - entryTime > row.ttl\<close>: a ttl that is NULL, absent or 0 is falsy.\<close>

definition expired :: "int \<Rightarrow> row \<Rightarrow> bool" where
  "expired now r =
     (case (property r ''ttl'', property r ''timestamp'') of
        (Some (SInt T), Some (SDate entryTime)) \<Rightarrow> T \<noteq> 0 \<and> now - entryTime > T
      | _ \<Rightarrow> False)"

text \<open>
  The loop of \<open>get\<close> over the rows that \<open>db.all\<close> returned, with \<open>bestMatch\<close> and
  \<open>highestSimilarity\<close>; the clock is read once for every row. For an expired row it issues
  \<open>DELETE FROM semantic_cache WHERE queryHash = ?\<close> with the argument \<open>row.queryHash\<close>.
  A vector cell holds what \<open>set\<close> writes, the JSON text of a number array, or NULL; a
  row with any other cell there is passed over.
\<close>

fun scan :: "env \<Rightarrow> real list \<Rightarrow> row list \<Rightarrow> string option \<times> number \<times> world
               \<Rightarrow> string option \<times> number \<times> world" where
  "scan e queryEmbedding [] acc = acc"
| "scan e queryEmbedding (r # rows) (bestMatch, highestSimilarity, w) =
     (let (now, w1) = Date_now e w
      in if expired now r
         then scan e queryEmbedding rows
                (bestMatch, highestSimilarity,
                 w1\<lparr>semantic_cache :=
                      sql_delete_where
                        (\<lambda>r'. sql_eq (col r' ''queryHash'')
                                 (param [js_param (property r ''queryHash'')] 0))
                        (semantic_cache w1)\<rparr>)
         else (case property r ''semanticVector'' of
                 Some (SNumbers cachedEmbedding) \<Rightarrow>
                   (let similarity = cosineSimilarity queryEmbedding cachedEmbedding
                    in if num_gt similarity highestSimilarity
                       then scan e queryEmbedding rows
                              (Some (text_of (js_param (property r ''response''))),
                               similarity, w1)
                       else scan e queryEmbedding rows (bestMatch, highestSimilarity, w1))
               | _ \<Rightarrow> scan e queryEmbedding rows (bestMatch, highestSimilarity, w1)))"

text \<open>\<open>SELECT response, timestamp, ttl, semanticVector FROM semantic_cache\<close>\<close>

definition SemanticCache_get :: "env \<Rightarrow> string \<Rightarrow> number \<Rightarrow> world \<Rightarrow> (error + string option) \<times> world" where
  "SemanticCache_get e query similarityThreshold w =
     (case embedContent e query of
        Inl err \<Rightarrow> (Inl err, w)
      | Inr None \<Rightarrow> (Inr None, w)
      | Inr (Some queryEmbedding) \<Rightarrow>
          (let rows = map (sql_project [''response'', ''timestamp'', ''ttl'', ''semanticVector''])
                        (semantic_cache w);
               (bestMatch, highestSimilarity, w') =
                  scan e queryEmbedding rows (None, similarityThreshold, w)
           in (Inr bestMatch, w')))"

text \<open>
  \<open>set\<close> runs \<open>INSERT OR REPLACE INTO semantic_cache (queryHash, semanticVector, response,
  timestamp, ttl) VALUES (?, ?, ?, ?, ?)\<close> with four arguments before the callback; its
  third parameter \<open>_ttl\<close> is not among them.
\<close>

definition SemanticCache_set :: "env \<Rightarrow> string \<Rightarrow> string \<Rightarrow> int option \<Rightarrow> world \<Rightarrow> (error + unit) \<times> world" where
  "SemanticCache_set e query resp unused_ttl w =
     (let queryHash = generateHash e query;
          (timestamp, w1) = Date_now e w
      in case embedContent e query of
           Inl err \<Rightarrow> (Inl err, w1)
         | Inr queryEmbedding \<Rightarrow>
             (let semanticVector = (case queryEmbedding of Some v \<Rightarrow> SNumbers v | None \<Rightarrow> SNull)
              in case sql_insert_or_replace semantic_cache_schema
                        (values_row (columns semantic_cache_schema)
                           [SText queryHash, semanticVector, SText resp, SDate timestamp])
                        (semantic_cache w1) of
                   Inl err \<Rightarrow> (Inl err, w1)
                 | Inr t \<Rightarrow> (Inr (), w1\<lparr>semantic_cache := t\<rparr>)))"

section \<open>GeminiDispatcher\<close>

definition newline :: string where
  "newline = [CHR 0x0A]"

definition dquote :: string where
  "dquote = [CHR 0x22]"

text \<open>A template literal prints a value that is \<open>undefined\<close> as the word.\<close>

definition js_string :: "string option \<Rightarrow> string" where
  "js_string v = (case v of None \<Rightarrow> ''undefined'' | Some s \<Rightarrow> s)"

text \<open>\<open>Array.prototype.join\<close> and \<open>String.prototype.includes\<close>.\<close>

fun join :: "string \<Rightarrow> string list \<Rightarrow> string" where
  "join sep [] = []"
| "join sep [x] = x"
| "join sep (x # y # ys) = x @ sep @ join sep (y # ys)"

fun String_includes :: "string \<Rightarrow> string \<Rightarrow> bool" where
  "String_includes [] pat = (pat = [])"
| "String_includes (c # cs) pat = (prefix pat (c # cs) \<or> String_includes cs pat)"

definition strategic_prompt :: "string \<Rightarrow> string \<Rightarrow> string" where
  "strategic_prompt descr knowledgeContext =
     ''Design the architecture for: '' @ descr @ newline @ newline
       @ ''Relevant Knowledge:'' @ newline @ knowledgeContext"

definition tactical_prompt :: "string \<Rightarrow> string" where
  "tactical_prompt strategicPlan =
     ''Based on the following strategic plan, break it down into detailed tactical milestones and sub-tasks. For each milestone, list the key objectives. Format the output as a markdown list.''
       @ newline @ newline @ ''Strategic Plan:'' @ newline @ dquote @ strategicPlan @ dquote"

definition operational_prompt :: "string \<Rightarrow> string" where
  "operational_prompt tacticalPlan =
     ''Based on the following tactical plan, break it down into concrete, actionable operational tasks. For each task, suggest a command-line tool that could be used to execute it (e.g., 'writeFile', 'runShellCommand', 'replace'). Format each task as a JSON object with 'task' and 'suggestedTool' keys, and return a JSON array of these objects.''
       @ newline @ newline @ ''Tactical Plan:'' @ newline @ dquote @ tacticalPlan @ dquote"

definition atomic_prompt :: "string \<Rightarrow> string" where
  "atomic_prompt t =
     ''For the following operational task, generate the specific command to be executed. If the task is to write code, generate the code. If it is a shell command, generate the command. Only output the raw command or code, nothing else.''
       @ newline @ newline @ ''Operational Task:'' @ newline @ dquote @ t @ dquote"

text \<open>The text of a streamed answer: the values of the chunks of type \<open>content\<close>, in
  order.\<close>

fun fullResponse_of :: "chunk list \<Rightarrow> string" where
  "fullResponse_of [] = []"
| "fullResponse_of (Content v # cs) = v @ fullResponse_of cs"
| "fullResponse_of (OtherEvent v # cs) = fullResponse_of cs"

text \<open>
  \<open>sendMessage\<close>: a cached answer that is not the empty string is returned as it is;
  otherwise (\<open>askModel\<close>) the model is asked and its answer is cached. The cache is read
  with the default threshold, the double that the literal \<open>0.8\<close> denotes.
\<close>

definition askModel :: "env \<Rightarrow> Quest \<Rightarrow> string \<Rightarrow> world \<Rightarrow> (error + string) \<times> world" where
  "askModel e q prompt w =
     (let w1 = w\<lparr>model_calls := Suc (model_calls w)\<rparr>
      in case sendMessageStream e (model_calls w) prompt (quest_id q) of
           Inl err \<Rightarrow> (Inl err, w1)
         | Inr chunks \<Rightarrow>
             (let fullResponse = fullResponse_of chunks
              in case SemanticCache_set e prompt fullResponse None w1 of
                   (Inl err, w2) \<Rightarrow> (Inl err, w2)
                 | (Inr u, w2) \<Rightarrow> (Inr fullResponse, w2)))"

definition sendMessage :: "env \<Rightarrow> Quest \<Rightarrow> string \<Rightarrow> world \<Rightarrow> (error + string) \<times> world" where
  "sendMessage e q prompt w =
     (case SemanticCache_get e prompt (to_double (8 / 10)) w of
        (Inl err, w1) \<Rightarrow> (Inl err, w1)
      | (Inr None, w1) \<Rightarrow> askModel e q prompt w1
      | (Inr (Some cachedResponse), w1) \<Rightarrow>
          if cachedResponse = [] then askModel e q prompt w1
          else (Inr cachedResponse, w1))"

definition dispatchStrategic :: "env \<Rightarrow> Quest \<Rightarrow> string \<Rightarrow> world \<Rightarrow> (error + string) \<times> world" where
  "dispatchStrategic e q descr w =
     (case retrieveKnowledge e descr 5 w of
        Inl err \<Rightarrow> (Inl err, w)
      | Inr relevantKnowledge \<Rightarrow>
          (let knowledgeContext = join (newline @ newline) (map content relevantKnowledge)
           in sendMessage e q (strategic_prompt descr knowledgeContext) w))"

definition dispatchTactical :: "env \<Rightarrow> Quest \<Rightarrow> string option \<Rightarrow> world \<Rightarrow> (error + string) \<times> world" where
  "dispatchTactical e q strategicPlan w =
     sendMessage e q (tactical_prompt (js_string strategicPlan)) w"

text \<open>\<open>JSON.parse\<close> of the answer, read at the type of the cast, \<open>OperationalTask[]\<close>;
  the parser is \<open>None\<close> where \<open>JSON.parse\<close> throws.\<close>

definition dispatchOperational :: "env \<Rightarrow> Quest \<Rightarrow> string option \<Rightarrow> world
     \<Rightarrow> (error + OperationalTask list) \<times> world" where
  "dispatchOperational e q tacticalPlan w =
     (case sendMessage e q (operational_prompt (js_string tacticalPlan)) w of
        (Inl err, w1) \<Rightarrow> (Inl err, w1)
      | (Inr resp, w1) \<Rightarrow>
          (case JSON_parse_tasks e resp of
             Some tasks \<Rightarrow> (Inr tasks, w1)
           | None \<Rightarrow> (Inr [], w1)))"

definition dispatchAtomic :: "env \<Rightarrow> Quest \<Rightarrow> OperationalTask \<Rightarrow> world
     \<Rightarrow> (error + AtomicResult) \<times> world" where
  "dispatchAtomic e q t w =
     (case sendMessage e q (atomic_prompt (task t)) w of
        (Inl err, w1) \<Rightarrow> (Inl err, w1)
      | (Inr out, w1) \<Rightarrow>
          (let next = (if String_includes (toLowerCase out) ''success''
                       then NextDone else NextOperational)
           in (Inr \<lparr>result_task = t, outcome = out, nextState = Some next\<rparr>, w1)))"

section \<open>TaskPyramid\<close>

text \<open>
  The coordinator is written against the four level operations of a pyramid object, so
  the object is a record of them; \<open>new_TaskPyramid\<close> is the class of the repository,
  which hands each level to the dispatcher.
\<close>

record TaskPyramid =
  quest :: Quest
  executeStrategicLevel :: "world \<Rightarrow> (error + string) \<times> world"
  executeTacticalLevel :: "string option \<Rightarrow> world \<Rightarrow> (error + string) \<times> world"
  executeOperationalLevel :: "string option \<Rightarrow> world \<Rightarrow> (error + OperationalTask list) \<times> world"
  executeAtomicLevel :: "OperationalTask list option \<Rightarrow> world \<Rightarrow> (error + AtomicResult list) \<times> world"

fun atomic_loop :: "env \<Rightarrow> Quest \<Rightarrow> OperationalTask list \<Rightarrow> AtomicResult list \<Rightarrow> world
     \<Rightarrow> (error + AtomicResult list) \<times> world" where
  "atomic_loop e q [] results w = (Inr results, w)"
| "atomic_loop e q (t # ts) results w =
     (case dispatchAtomic e q t w of
        (Inl err, w1) \<Rightarrow> (Inl err, w1)
      | (Inr atomicResult, w1) \<Rightarrow> atomic_loop e q ts (results @ [atomicResult]) w1)"

text \<open>\<open>for (const task of operationalTasks)\<close> throws a TypeError when there is no list.\<close>

definition TaskPyramid_executeAtomicLevel :: "env \<Rightarrow> Quest \<Rightarrow> OperationalTask list option \<Rightarrow> world
     \<Rightarrow> (error + AtomicResult list) \<times> world" where
  "TaskPyramid_executeAtomicLevel e q operationalTasks w =
     (case operationalTasks of
        None \<Rightarrow> (Inl (Error ''operationalTasks is not iterable''), w)
      | Some ts \<Rightarrow> atomic_loop e q ts [] w)"

definition new_TaskPyramid :: "env \<Rightarrow> Quest \<Rightarrow> TaskPyramid" where
  "new_TaskPyramid e q =
     \<lparr>quest = q,
      executeStrategicLevel = dispatchStrategic e q (description (config q)),
      executeTacticalLevel = dispatchTactical e q,
      executeOperationalLevel = dispatchOperational e q,
      executeAtomicLevel = TaskPyramid_executeAtomicLevel e q\<rparr>"

section \<open>LevelCoordinator\<close>

datatype QuestState = STRATEGIC | TACTICAL | OPERATIONAL | ATOMIC | DONE

text \<open>\<open>QuestState[state]\<close>, the name of an enum member.\<close>

fun QuestState_name :: "QuestState \<Rightarrow> string" where
  "QuestState_name STRATEGIC = ''STRATEGIC''"
| "QuestState_name TACTICAL = ''TACTICAL''"
| "QuestState_name OPERATIONAL = ''OPERATIONAL''"
| "QuestState_name ATOMIC = ''ATOMIC''"
| "QuestState_name DONE = ''DONE''"

text \<open>The field \<open>currentState\<close> of the coordinator and the local variables of
  \<open>coordinate\<close> that live across iterations.\<close>

record Coordinator =
  currentState :: QuestState
  strategicPlan :: "string option"
  tacticalPlan :: "string option"
  operationalTasks :: "OperationalTask list option"
  atomicResults :: "AtomicResult list option"

text \<open>The variables one iteration sets for its log entry.\<close>

record Attempt =
  attempt_status :: string
  attempt_error :: "string option"
  attempt_output :: string

definition succeeded :: "string \<Rightarrow> Attempt" where
  "succeeded out = \<lparr>attempt_status = ''success'', attempt_error = None, attempt_output = out\<rparr>"

text \<open>The \<open>catch\<close> block.\<close>

definition caught :: "error \<Rightarrow> Coordinator \<Rightarrow> Coordinator \<times> Attempt" where
  "caught err c =
     (c\<lparr>currentState := DONE\<rparr>,
      \<lparr>attempt_status = ''failure'', attempt_error = Some (message err),
       attempt_output = ''Error: '' @ message err\<rparr>)"

text \<open>The state after an atomic batch.\<close>

definition after_atomic :: "AtomicResult list \<Rightarrow> QuestState" where
  "after_atomic results =
     (if length results > 0
      then (let lastResult = results ! (length results - 1)
            in if nextState lastResult = Some NextDone then DONE
               else if nextState lastResult = Some NextOperational then OPERATIONAL
               else DONE)
      else DONE)"

text \<open>The \<open>try\<close> block with its \<open>switch\<close>, and the \<open>catch\<close>.\<close>

definition attempt :: "env \<Rightarrow> TaskPyramid \<Rightarrow> Coordinator \<Rightarrow> world \<Rightarrow> (Coordinator \<times> Attempt) \<times> world" where
  "attempt e taskPyramid c w =
     (case currentState c of
        STRATEGIC \<Rightarrow>
          (case executeStrategicLevel taskPyramid w of
             (Inl err, w1) \<Rightarrow> (caught err c, w1)
           | (Inr plan, w1) \<Rightarrow>
               ((c\<lparr>strategicPlan := Some plan, currentState := TACTICAL\<rparr>, succeeded plan), w1))
      | TACTICAL \<Rightarrow>
          (case executeTacticalLevel taskPyramid (strategicPlan c) w of
             (Inl err, w1) \<Rightarrow> (caught err c, w1)
           | (Inr plan, w1) \<Rightarrow>
               ((c\<lparr>tacticalPlan := Some plan, currentState := OPERATIONAL\<rparr>, succeeded plan), w1))
      | OPERATIONAL \<Rightarrow>
          (case executeOperationalLevel taskPyramid (tacticalPlan c) w of
             (Inl err, w1) \<Rightarrow> (caught err c, w1)
           | (Inr tasks, w1) \<Rightarrow>
               ((c\<lparr>operationalTasks := Some tasks, currentState := ATOMIC\<rparr>,
                 succeeded (JSON_stringify_tasks e tasks)), w1))
      | ATOMIC \<Rightarrow>
          (case executeAtomicLevel taskPyramid (operationalTasks c) w of
             (Inl err, w1) \<Rightarrow> (caught err c, w1)
           | (Inr results, w1) \<Rightarrow>
               ((c\<lparr>atomicResults := Some results, currentState := after_atomic results\<rparr>,
                 succeeded (JSON_stringify_results e (Some results))), w1))
      | DONE \<Rightarrow> ((c\<lparr>currentState := DONE\<rparr>, succeeded []), w))"

text \<open>\<open>x || ''\<close> and \<open>x || []\<close>.\<close>

definition or_empty :: "'a list option \<Rightarrow> 'a list" where
  "or_empty v = (case v of None \<Rightarrow> [] | Some l \<Rightarrow> l)"

definition getLogInput :: "env \<Rightarrow> QuestState \<Rightarrow> string option \<Rightarrow> string option
     \<Rightarrow> OperationalTask list option \<Rightarrow> string" where
  "getLogInput e state strategic_plan tactical_plan operational_tasks =
     (case state of
        STRATEGIC \<Rightarrow> ''Initial quest description''
      | TACTICAL \<Rightarrow> or_empty strategic_plan
      | OPERATIONAL \<Rightarrow> or_empty tactical_plan
      | ATOMIC \<Rightarrow> JSON_stringify_tasks e (or_empty operational_tasks)
      | DONE \<Rightarrow> [])"

text \<open>The log entry that the \<open>finally\<close> block builds; it reads \<open>this.currentState\<close> and
  the plans as the \<open>try\<close> and \<open>catch\<close> blocks have left them.\<close>

definition logEntry_of :: "env \<Rightarrow> string \<Rightarrow> Coordinator \<Rightarrow> Attempt \<Rightarrow> int \<Rightarrow> LogInput" where
  "logEntry_of e qid c a duration =
     \<lparr>questId = qid,
      level = toLowerCase (QuestState_name (currentState c)),
      log_input = getLogInput e (currentState c) (strategicPlan c) (tacticalPlan c)
                    (operationalTasks c),
      log_output = attempt_output a,
      durationMs = duration,
      status = attempt_status a,
      toolCalls = None,
      log_error = attempt_error a\<rparr>"

text \<open>One turn of the \<open>while\<close> loop. A rejection of \<open>logExecution\<close> leaves the
  \<open>finally\<close> block as a thrown error and ends \<open>coordinate\<close>.\<close>

definition iteration :: "env \<Rightarrow> TaskPyramid \<Rightarrow> Coordinator \<Rightarrow> world \<Rightarrow> (error + Coordinator) \<times> world" where
  "iteration e taskPyramid c w =
     (let (startTime, w1) = Date_now e w;
          ((c', a), w2) = attempt e taskPyramid c w1;
          (endTime, w3) = Date_now e w2
      in case logExecution e (logEntry_of e (quest_id (quest taskPyramid)) c' a
                                (endTime - startTime)) w3 of
           (Inl err, w4) \<Rightarrow> (Inl err, w4)
         | (Inr written, w4) \<Rightarrow> (Inr c', w4))"

text \<open>
  The loop runs until the state is \<open>DONE\<close>, which may be never (an atomic batch can send
  it back to \<open>OPERATIONAL\<close> every time), so it takes a bound on the number of turns and
  is \<open>None\<close> when the bound is used up.
\<close>

fun coordinate_loop :: "nat \<Rightarrow> env \<Rightarrow> TaskPyramid \<Rightarrow> Coordinator \<Rightarrow> world
     \<Rightarrow> ((error + AtomicResult list option) \<times> world) option" where
  "coordinate_loop n e taskPyramid c w =
     (if currentState c = DONE then Some (Inr (atomicResults c), w)
      else (case n of
              0 \<Rightarrow> None
            | Suc k \<Rightarrow>
                (case iteration e taskPyramid c w of
                   (Inl err, w1) \<Rightarrow> Some (Inl err, w1)
                 | (Inr c', w1) \<Rightarrow> coordinate_loop k e taskPyramid c' w1)))"

definition new_LevelCoordinator :: Coordinator where
  "new_LevelCoordinator = \<lparr>currentState = STRATEGIC, strategicPlan = None,
     tacticalPlan = None, operationalTasks = None, atomicResults = None\<rparr>"

definition coordinate :: "nat \<Rightarrow> env \<Rightarrow> TaskPyramid \<Rightarrow> world
     \<Rightarrow> ((error + AtomicResult list option) \<times> world) option" where
  "coordinate n e taskPyramid w = coordinate_loop n e taskPyramid new_LevelCoordinator w"

section \<open>QuestRepository and QuestManager\<close>

text \<open>
  The \<open>quests\<close> table holds one row per quest, every column bound by \<open>save\<close>, so the rows
  are kept as the quests they decode to. \<open>save\<close> is an upsert on the id that leaves
  \<open>created_at\<close> of an existing row as it is.
\<close>

definition findById :: "string \<Rightarrow> world \<Rightarrow> Quest option" where
  "findById qid w = List.find (\<lambda>q. quest_id q = qid) (quests w)"

definition save :: "Quest \<Rightarrow> world \<Rightarrow> world" where
  "save q w =
     (if \<exists>q' \<in> set (quests w). quest_id q' = quest_id q
      then w\<lparr>quests := map (\<lambda>q'. if quest_id q' = quest_id q
                                   then q\<lparr>createdAt := createdAt q'\<rparr> else q') (quests w)\<rparr>
      else w\<lparr>quests := quests w @ [q]\<rparr>)"

definition createQuest :: "env \<Rightarrow> QuestConfig \<Rightarrow> world \<Rightarrow> Quest \<times> world" where
  "createQuest e cfg w =
     (let (now, w1) = Date_now e w;
          (uid, w2) = new_uuid e w1;
          q = \<lparr>quest_id = uid, config = cfg, quest_status = pending, currentLevel = none,
               createdAt = now, updatedAt = now, quest_error = None\<rparr>
      in (q, save q w2))"

definition getQuest :: "string \<Rightarrow> world \<Rightarrow> Quest option" where
  "getQuest qid w = findById qid w"

definition executeQuest :: "nat \<Rightarrow> env \<Rightarrow> string \<Rightarrow> world
     \<Rightarrow> ((error + AtomicResult list option) \<times> world) option" where
  "executeQuest n e qid w =
     (case getQuest qid w of
        None \<Rightarrow> Some (Inl (Error ''Quest not found''), w)
      | Some q \<Rightarrow> coordinate n e (new_TaskPyramid e q) w)"

section \<open>The transition table of the design\<close>

text \<open>
  The table as the design words it, over the result of the level's call (for the levels
  other than the atomic one only whether it threw matters): an error leads to \<open>DONE\<close>
  from every state; otherwise STRATEGIC goes to TACTICAL, TACTICAL to OPERATIONAL,
  OPERATIONAL to ATOMIC, and ATOMIC goes to OPERATIONAL exactly when the batch is not
  empty and its last result asks for \<open>operational\<close>, and to \<open>DONE\<close> otherwise.
\<close>

definition table_next :: "QuestState \<Rightarrow> error + AtomicResult list \<Rightarrow> QuestState" where
  "table_next s r =
     (case r of
        Inl err \<Rightarrow> DONE
      | Inr batch \<Rightarrow>
          (case s of
             STRATEGIC \<Rightarrow> TACTICAL
           | TACTICAL \<Rightarrow> OPERATIONAL
           | OPERATIONAL \<Rightarrow> ATOMIC
           | ATOMIC \<Rightarrow> if batch \<noteq> [] \<and> nextState (last batch) = Some NextOperational
                       then OPERATIONAL else DONE
           | DONE \<Rightarrow> DONE))"

text \<open>The result of the call that the coordinator makes in its current state, with the
  value of a level other than the atomic one left out.\<close>

definition forget :: "error + 'a \<Rightarrow> error + AtomicResult list" where
  "forget r = (case r of Inl err \<Rightarrow> Inl err | Inr v \<Rightarrow> Inr [])"

definition level_call :: "TaskPyramid \<Rightarrow> Coordinator \<Rightarrow> world \<Rightarrow> error + AtomicResult list" where
  "level_call taskPyramid c w =
     (case currentState c of
        STRATEGIC \<Rightarrow> forget (fst (executeStrategicLevel taskPyramid w))
      | TACTICAL \<Rightarrow> forget (fst (executeTacticalLevel taskPyramid (strategicPlan c) w))
      | OPERATIONAL \<Rightarrow> forget (fst (executeOperationalLevel taskPyramid (tacticalPlan c) w))
      | ATOMIC \<Rightarrow> fst (executeAtomicLevel taskPyramid (operationalTasks c) w)
      | DONE \<Rightarrow> Inr [])"

section \<open>Test doubles\<close>

text \<open>
  Stand-ins for the surroundings, used to run the model on concrete inputs: a clock that
  advances one second per reading, distinct ids, a tagging function in place of SHA-256,
  and JSON functions that cover the texts of the examples.
\<close>

definition mock_parse_tasks :: "string \<Rightarrow> OperationalTask list option" where
  "mock_parse_tasks s =
     (if s = ''[]'' then Some []
      else if s = ''[deploy]'' then Some [\<lparr>task = ''deploy'', suggestedTool = ''runShellCommand''\<rparr>]
      else None)"

definition mock_env :: "(string \<Rightarrow> error + real list option) \<Rightarrow> (nat \<Rightarrow> string \<Rightarrow> error + chunk list) \<Rightarrow> env" where
  "mock_env emb answer =
     \<lparr>clock = (\<lambda>n. 1000 * int n),
      uuidv4 = (\<lambda>n. ''uuid-'' @ replicate n (CHR ''x'')),
      sha256 = (\<lambda>s. ''sha256:'' @ s),
      embedContent = emb,
      sendMessageStream = (\<lambda>n prompt session. answer n prompt),
      JSON_parse_tasks = mock_parse_tasks,
      JSON_stringify_tasks = (\<lambda>ts. ''['' @ join '','' (map task ts) @ '']''),
      JSON_stringify_results = (\<lambda>rs. case rs of None \<Rightarrow> ''undefined''
                                  | Some l \<Rightarrow> ''['' @ join '','' (map outcome l) @ '']''),
      JSON_stringify_strings = (\<lambda>l. ''['' @ join '','' l @ '']'')\<rparr>"

definition no_embedding :: "string \<Rightarrow> error + real list option" where
  "no_embedding q = Inr None"

definition unit_embedding :: "string \<Rightarrow> error + real list option" where
  "unit_embedding q = Inr (Some [1])"

definition fixed_embedding :: "real list \<Rightarrow> string \<Rightarrow> error + real list option" where
  "fixed_embedding v q = Inr (Some v)"

text \<open>Two doubles whose squares leave the range of the doubles.\<close>

definition huge :: real where
  "huge = 2 ^ 700"

definition tiny :: real where
  "tiny = 1 / 2 ^ 600"

definition model_down :: "nat \<Rightarrow> string \<Rightarrow> error + chunk list" where
  "model_down n prompt = Inl (Error ''model unavailable'')"

definition model_says :: "string \<Rightarrow> nat \<Rightarrow> string \<Rightarrow> error + chunk list" where
  "model_says answer n prompt = Inr [Content answer]"

text \<open>A model that answers the third request with a task list and every other request
  with a text in three chunks.\<close>

definition scripted_model :: "nat \<Rightarrow> string \<Rightarrow> error + chunk list" where
  "scripted_model n prompt =
     (if n = 2 then Inr [Content ''[deploy]'']
      else Inr [Content ''Done: '', OtherEvent ''thought'', Content ''Success''])"

definition sample_quest :: Quest where
  "sample_quest = \<lparr>quest_id = ''q1'', config = \<lparr>title = ''T'', description = ''D''\<rparr>,
     quest_status = pending, currentLevel = none, createdAt = 0, updatedAt = 0,
     quest_error = None\<rparr>"

text \<open>A pyramid whose levels answer with fixed values, as the unit tests of the
  coordinator would mock it.\<close>

definition mock_pyramid :: "(error + string) \<Rightarrow> (error + AtomicResult list) \<Rightarrow> TaskPyramid" where
  "mock_pyramid plan batch =
     \<lparr>quest = sample_quest,
      executeStrategicLevel = (\<lambda>w. (plan, w)),
      executeTacticalLevel = (\<lambda>p w. (plan, w)),
      executeOperationalLevel = (\<lambda>p w. (Inr [], w)),
      executeAtomicLevel = (\<lambda>ts w. (batch, w))\<rparr>"

text \<open>A batch whose last result asks for another operational pass, and a pyramid that
  always answers with it.\<close>

definition retry_result :: AtomicResult where
  "retry_result = \<lparr>result_task = \<lparr>task = ''deploy'', suggestedTool = ''runShellCommand''\<rparr>,
     outcome = ''permission denied'', nextState = Some NextOperational\<rparr>"

definition retry_pyramid :: TaskPyramid where
  "retry_pyramid = mock_pyramid (Inr ''PLAN'') (Inr [retry_result])"

definition stale_row :: row where
  "stale_row = [(''queryHash'', SText ''sha256:q''), (''semanticVector'', SNumbers [1]),
     (''response'', SText ''old answer''), (''timestamp'', SDate 0), (''ttl'', SInt 1000)]"

definition other_row :: "real list \<Rightarrow> row" where
  "other_row u = [(''queryHash'', SText ''sha256:other''), (''semanticVector'', SNumbers u),
     (''response'', SText ''other answer''), (''timestamp'', SDate 0), (''ttl'', SNull)]"

section \<open>Auxiliary notions\<close>

text \<open>A result row that stays below the similarity \<open>s\<close> with the embedding \<open>qe\<close>: it
  has no vector, or its similarity is \<open>NaN\<close>, or \<open>s\<close> is greater.\<close>

definition below :: "number \<Rightarrow> real list \<Rightarrow> row \<Rightarrow> bool" where
  "below s qe r = (\<forall>u. property r ''semanticVector'' = Some (SNumbers u)
      \<longrightarrow> cosineSimilarity qe u = NaN \<or> num_gt s (cosineSimilarity qe u))"

text \<open>The ids of the log rows are among the UUIDs drawn so far.\<close>

definition ids_drawn :: "env \<Rightarrow> world \<Rightarrow> bool" where
  "ids_drawn e w =
     (\<forall>r \<in> set (execution_logs w). \<exists>k < uuids_drawn w. col r ''id'' = SText (uuidv4 e k))"

section \<open>Properties\<close>

lemmas sql_defs = values_row_def param_def col_def property_def sql_eq_def
  not_null_violation_def same_key_def sql_insert_def sql_insert_or_replace_def
  sql_select_where_def sql_delete_where_def sql_project_def js_param_def text_of_def
  int_of_def

lemmas world_defs = Date_now_def new_uuid_def empty_world_def mock_env_def

subsection \<open>LearningEngineService\<close>

lemma getLogsByQuestId_empty: "getLogsByQuestId q w = Inr []"
  by (simp add: getLogsByQuestId_def sql_select_where_def param_def sql_eq_def)

text \<open>
  C9. The claim: for every quest id \<open>q\<close>, \<open>getLogsByQuestId(q)\<close> returns exactly the logged
  rows whose questId is \<open>q\<close>. The code runs the query without binding the id, so the
  comparison is with NULL and selects nothing: after one entry of quest \<open>q1\<close> has been
  logged into an empty store, \<open>analyzePastExecutions\<close> returns that entry and
  \<open>getLogsByQuestId('q1')\<close> returns the empty list.
\<close>

theorem C9_getLogsByQuestId_returns_nothing:
  "(case logExecution (mock_env no_embedding model_down)
           \<lparr>questId = ''q1'', level = ''strategic'', log_input = ''D'', log_output = ''plan'',
            durationMs = 5, status = ''success'', toolCalls = None, log_error = None\<rparr>
           empty_world of
      (r, w) \<Rightarrow> map_sum id questId r = Inr ''q1''
        \<and> map_sum id (map questId) (analyzePastExecutions w) = Inr [''q1'']
        \<and> getLogsByQuestId ''q1'' w = Inr [])"
  by (simp add: logExecution_def analyzePastExecutions_def getLogsByQuestId_def log_of_row_def
      execution_logs_schema_def toolCalls_cell_def text_or_null_def sql_defs world_defs
      LogInput.extend_def)

subsection \<open>KnowledgeBaseService\<close>

text \<open>The timestamp column is NOT NULL and the INSERT leaves its placeholder unbound, so
  every call of \<open>addKnowledge\<close> is rejected and stores nothing.\<close>

lemma addKnowledge_rejects:
  "fst (addKnowledge e item w)
     = Inl (Error ''SQLITE_CONSTRAINT: NOT NULL constraint failed: knowledge_items.timestamp'')"
  by (simp add: addKnowledge_def knowledge_items_schema_def sql_defs Date_now_def new_uuid_def
      split: prod.splits)

lemma addKnowledge_stores_nothing:
  "knowledge_items (snd (addKnowledge e item w)) = knowledge_items w"
  by (simp add: addKnowledge_def knowledge_items_schema_def sql_defs Date_now_def new_uuid_def
      split: prod.splits)

text \<open>The query side does find a row that is in the table, by a part of its content or of
  its serialised tags, in any letter case.\<close>

lemma retrieveKnowledge_finds_stored_row:
  "retrieveKnowledge (mock_env no_embedding model_down) ''TABS'' 10
     (empty_world\<lparr>knowledge_items :=
        [[(''id'', SText ''k1''), (''content'', SText ''use tabs''),
          (''tags'', SStrings [''style'']), (''source'', SNull), (''timestamp'', SDate 7)]]\<rparr>)
   = Inr [\<lparr>item_id = ''k1'', content = ''use tabs'', tags = Some [''style''], source = None,
           item_timestamp = 7\<rparr>]"
  by (simp add: retrieveKnowledge_def item_of_row_def sql_like_def sql_limit_def
      toLowerCase_char_def sql_defs world_defs Let_def)

text \<open>
  C8. The claim: \<open>addKnowledge\<close> assigns an id and a timestamp, persists content, tags and
  source, resolves with the stored item, and \<open>retrieveKnowledge\<close> then finds it. The code
  binds three of the five placeholders of its INSERT (id, content, tags), so the timestamp is
  NULL against a NOT NULL column: the call is rejected, the table stays empty and
  \<open>retrieveKnowledge\<close> finds nothing.
\<close>

theorem C8_addKnowledge_is_rejected:
  "(case addKnowledge (mock_env no_embedding model_down)
           \<lparr>new_content = ''use tabs'', new_tags = Some [''style''], new_source = Some ''wiki''\<rparr>
           empty_world of
      (r, w) \<Rightarrow>
        r = Inl (Error ''SQLITE_CONSTRAINT: NOT NULL constraint failed: knowledge_items.timestamp'')
        \<and> knowledge_items w = []
        \<and> retrieveKnowledge (mock_env no_embedding model_down) ''tabs'' 10 w = Inr [])"
  by (simp add: addKnowledge_def retrieveKnowledge_def knowledge_items_schema_def strings_cell_def
      sql_limit_def sql_defs world_defs)

subsection \<open>SemanticCacheService\<close>

lemma col_Cons: "col ((k, v) # r) c = (if k = c then v else col r c)"
  by (simp add: col_def)

text \<open>The rows that \<open>get\<close> scans come from a SELECT list without \<open>queryHash\<close>, so the
  DELETE it issues for an expired row compares the key with NULL: the table is the same
  after every \<open>get\<close>.\<close>

lemma scan_cache_unchanged:
  "\<forall>r \<in> set rows. property r ''queryHash'' = None \<Longrightarrow>
   semantic_cache (snd (snd (scan e qe rows (b, h, w)))) = semantic_cache w"
proof (induction rows arbitrary: b h w)
  case Nil
  show ?case by simp
next
  case (Cons r rows)
  then show ?case
    by (simp add: Date_now_def sql_delete_where_def sql_eq_def param_def js_param_def Let_def
        split: option.splits sqlval.splits)
qed

lemma project_no_queryHash:
  "property (sql_project [''response'', ''timestamp'', ''ttl'', ''semanticVector''] r) ''queryHash'' = None"
  by (simp add: property_def sql_project_def)

lemma get_cache_unchanged:
  "semantic_cache (snd (SemanticCache_get e q t w)) = semantic_cache w"
proof (cases "embedContent e q")
  case (Inl err)
  then show ?thesis by (simp add: SemanticCache_get_def)
next
  case (Inr v)
  show ?thesis
  proof (cases v)
    case None
    with Inr show ?thesis by (simp add: SemanticCache_get_def)
  next
    case (Some qe)
    let ?rows = "map (sql_project [''response'', ''timestamp'', ''ttl'', ''semanticVector''])
                        (semantic_cache w)"
    have "\<forall>r \<in> set ?rows. property r ''queryHash'' = None"
      by (auto simp: project_no_queryHash)
    then have "semantic_cache (snd (snd (scan e qe ?rows (None, t, w)))) = semantic_cache w"
      by (rule scan_cache_unchanged)
    with Inr Some show ?thesis
      by (simp add: SemanticCache_get_def case_prod_beta Let_def)
  qed
qed

text \<open>Rounding: a power of two within the exponent range is a double, a value of
  \<open>2^1024\<close> or more overflows, a value below \<open>2^-1075\<close> in magnitude rounds to 0, and the
  literal \<open>0.8\<close> is the double \<open>7205759403792794 / 2^53\<close>.\<close>

lemma round_half_even_int: "round_half_even (of_int n) = n"
  by (simp add: round_half_even_def)

lemma ulp_pow2:
  assumes "- 1022 \<le> k" and s: "\<bar>s\<bar> = (1::real)"
  shows "ulp (s * 2 powr of_int k) = 2 powr (of_int k - 52)"
proof -
  have "\<bar>s * 2 powr of_int k\<bar> = 2 powr of_int k"
    using s by (simp add: abs_mult)
  then have "\<lfloor>log 2 \<bar>s * 2 powr of_int k\<bar>\<rfloor> = k"
    by simp
  with assms show ?thesis
    by (simp add: ulp_def max_def)
qed

lemma to_double_pow2_signed:
  assumes "- 1022 \<le> k" "k \<le> 1023" "\<bar>s\<bar> = 1"
  shows "to_double (s * 2 powr of_int k) = Num (s * 2 powr of_int k)"
proof -
  let ?x = "s * 2 powr of_int k :: real"
  have u: "ulp ?x = 2 powr (of_int k - 52)"
    using ulp_pow2 [OF assms(1) assms(3)] .
  have "2 powr of_int k / 2 powr (of_int k - 52) = (2 powr 52 :: real)"
    by (simp add: powr_diff)
  also have "\<dots> = of_int (2 ^ 52)"
    by (simp add: powr_numeral)
  finally have q: "2 powr of_int k / 2 powr (of_int k - 52) = (of_int (2 ^ 52) :: real)" .
  from assms(3) have s: "s = 1 \<or> s = - 1" by auto
  define n :: int where "n = (if s = 1 then 2 ^ 52 else - (2 ^ 52))"
  have recover: "of_int n * 2 powr (of_int k - 52) = ?x"
    using s q by (auto simp: n_def field_simps)
  have "?x / 2 powr (of_int k - 52) = of_int n"
    using s q by (auto simp: n_def)
  then have "round_half_even (?x / ulp ?x) = n"
    unfolding u by (simp only: round_half_even_int)
  then have y: "of_int (round_half_even (?x / ulp ?x)) * ulp ?x = ?x"
    unfolding u using recover by simp
  have "(2::real) powr of_int k < 2 powr 1024"
    using assms by (intro powr_less_mono) auto
  then have small: "\<not> \<bar>?x\<bar> \<ge> overflow_bound"
    using assms(3) by (simp add: overflow_bound_def abs_mult)
  have nz: "?x \<noteq> 0"
    using assms(3) by auto
  show ?thesis
    unfolding to_double_def Let_def y using small nz by simp
qed

lemma to_double_1: "to_double 1 = Num 1"
  using to_double_pow2_signed [of 0 1] by simp

lemma to_double_m1: "to_double (- 1) = Num (- 1)"
  using to_double_pow2_signed [of 0 "- 1"] by simp

lemma to_double_2: "to_double 2 = Num 2"
  using to_double_pow2_signed [of 1 1] by simp

lemma to_double_4: "to_double 4 = Num 4"
  using to_double_pow2_signed [of 2 1] by (simp add: powr_numeral)

lemma to_double_half: "to_double (1 / 2) = Num (1 / 2)"
  using to_double_pow2_signed [of "- 1" 1] by (simp add: powr_minus field_simps)


lemma floor_le_round_half_even: "\<lfloor>m\<rfloor> \<le> round_half_even m"
  by (simp add: round_half_even_def Let_def)

lemma to_double_overflow:
  assumes "2 powr 1024 \<le> x"
  shows "to_double x = PosInfinity"
proof -
  have pos: "0 < x"
    using assms by (smt (verit) powr_gt_zero)
  define e where "e = \<lfloor>log 2 \<bar>x\<bar>\<rfloor>"
  have "1024 \<le> log 2 x"
    using assms pos le_log_iff [of 2 x 1024] by (simp only: one_less_numeral_iff semiring_norm)
  then have e: "1024 \<le> e"
    using pos by (simp add: e_def le_floor_iff)
  have low: "2 powr of_int e \<le> x"
    using pos floor_log_eq_powr_iff [of x 2 e] by (simp add: e_def)
  have u: "ulp x = 2 powr (of_int e - 52)"
    using e by (simp add: ulp_def e_def [symmetric] max_def)
  have "of_int (2 ^ 52) = (2 powr 52 :: real)"
    by (simp add: powr_numeral)
  also have "\<dots> = 2 powr of_int e / ulp x"
    by (simp add: u powr_diff)
  also have "\<dots> \<le> x / ulp x"
    using low by (simp add: u divide_right_mono)
  finally have "(2 ^ 52 :: int) \<le> \<lfloor>x / ulp x\<rfloor>"
    by (simp only: le_floor_iff)
  with floor_le_round_half_even [of "x / ulp x"]
  have n: "(2 ^ 52 :: int) \<le> round_half_even (x / ulp x)"
    by linarith
  have "2 powr 1024 \<le> (2 powr of_int e :: real)"
    using e by (intro powr_mono) auto
  also have "\<dots> = of_int (2 ^ 52) * ulp x"
    by (simp add: u powr_diff powr_numeral)
  also have "\<dots> \<le> of_int (round_half_even (x / ulp x)) * ulp x"
    using n by (intro mult_right_mono) (auto simp: ulp_def simp del: of_int_power)
  finally have "overflow_bound \<le> \<bar>of_int (round_half_even (x / ulp x)) * ulp x\<bar>"
    by (simp add: overflow_bound_def)
  with pos show ?thesis
    by (simp add: to_double_def Let_def)
qed

lemma to_double_underflow:
  assumes "\<bar>x\<bar> < 2 powr (- 1075)"
  shows "to_double x = Num 0"
proof (cases "x = 0")
  case True
  then show ?thesis by (simp add: to_double_def)
next
  case False
  then have pos: "0 < \<bar>x\<bar>" by simp
  have "log 2 \<bar>x\<bar> < log 2 (2 powr (- 1075))"
    using assms pos by (subst log_less_cancel_iff) auto
  then have "log 2 \<bar>x\<bar> < - 1075" by simp
  then have "\<lfloor>log 2 \<bar>x\<bar>\<rfloor> < - 1022"
    by (simp add: floor_less_iff)
  then have u: "ulp x = 2 powr (- 1074)"
    by (simp add: ulp_def max_def)
  have "\<bar>x / ulp x\<bar> = \<bar>x\<bar> / 2 powr (- 1074)"
    by (simp add: u)
  also have "\<dots> < 2 powr (- 1075) / 2 powr (- 1074)"
    using assms by (simp add: divide_strict_right_mono)
  also have "\<dots> = 1 / 2"
    by (simp add: powr_diff [symmetric])
  finally have m: "\<bar>x / ulp x\<bar> < 1 / 2" .
  define q where "q = x / ulp x"
  from m have lo: "- (1 / 2) < q" and hi: "q < 1 / 2"
    unfolding q_def by linarith+
  have "round_half_even q = 0"
  proof (cases "0 \<le> q")
    case True
    with hi have "\<lfloor>q\<rfloor> = 0" by (intro floor_unique) auto
    with hi show ?thesis by (simp add: round_half_even_def)
  next
    case False
    with lo have "\<lfloor>q\<rfloor> = - 1" by (intro floor_unique) auto
    with lo show ?thesis by (simp add: round_half_even_def)
  qed
  then have "round_half_even (x / ulp x) = 0"
    by (simp only: q_def)
  then show ?thesis
    using False by (simp add: to_double_def overflow_bound_def)
qed


lemma ulp_unit_interval:
  assumes "1 / 2 \<le> x" "x < 1"
  shows "ulp x = 1 / 2 ^ 53"
proof -
  have "\<lfloor>log 2 \<bar>x\<bar>\<rfloor> = - 1"
    using assms floor_log_eq_powr_iff [of "\<bar>x\<bar>" 2 "- 1"] by (simp add: powr_minus)
  then have "ulp x = 2 powr (- 53)"
    by (simp add: ulp_def)
  also have "\<dots> = 1 / 2 ^ 53"
    by (simp add: powr_minus powr_numeral field_simps)
  finally show ?thesis .
qed

lemma to_double_0_8: "to_double (8 / 10) = Num (3602879701896397 / 4503599627370496)"
proof -
  have u: "ulp (8 / 10) = 1 / 2 ^ 53"
    by (rule ulp_unit_interval) simp_all
  have r: "round_half_even ((8 / 10) / (1 / 2 ^ 53)) = 7205759403792794"
    by (simp add: round_half_even_def)
  show ?thesis
    unfolding to_double_def Let_def u r
    by (simp add: overflow_bound_def powr_numeral)
qed

lemma to_double_0: "to_double 0 = Num 0"
  by (simp add: to_double_def)

lemma to_double_4_5: "to_double (4 / 5) = Num (3602879701896397 / 4503599627370496)"
  using to_double_0_8 by simp

lemmas double_values = to_double_0 to_double_1 to_double_m1 to_double_2 to_double_4
  to_double_half to_double_4_5 to_double_overflow to_double_underflow

text \<open>The similarities of the examples.\<close>

lemma cosine_1_1: "cosineSimilarity [1] [1] = Num 1"
  by (simp add: cosineSimilarity_def magnitude_def reduce_def at_index_def double_values)

lemma cosine_1_m1: "cosineSimilarity [1] [- 1] = Num (- 1)"
  by (simp add: cosineSimilarity_def magnitude_def reduce_def at_index_def double_values)

lemma cosine_1_2: "cosineSimilarity [1] [2] = Num 1"
  by (simp add: cosineSimilarity_def magnitude_def reduce_def at_index_def double_values)

lemma cosine_overflow: "cosineSimilarity [huge] [huge] = NaN"
  by (simp add: huge_def cosineSimilarity_def magnitude_def reduce_def at_index_def double_values
      infinity_def)

lemma cosine_underflow: "cosineSimilarity [tiny] [tiny] = Num 0"
  by (simp add: tiny_def cosineSimilarity_def magnitude_def reduce_def at_index_def double_values
      powr_minus)

text \<open>Rounding at work: the self-similarity of \<open>[1, 1]\<close> passes through the doubles
  nearest to \<open>sqrt 2\<close>, to its square and to the quotient, and comes out as \<open>1 - 2^-52\<close>.\<close>

lemma ulp_range:
  assumes "2 powr of_int k \<le> \<bar>x\<bar>" "\<bar>x\<bar> < 2 powr of_int (k + 1)" "- 1022 \<le> k"
  shows "ulp x = 2 powr of_int (k - 52)"
proof -
  have "0 < \<bar>x\<bar>"
    using assms(1) by (smt (verit) powr_gt_zero)
  then have "\<lfloor>log 2 \<bar>x\<bar>\<rfloor> = k"
    using assms(1,2) floor_log_eq_powr_iff [of "\<bar>x\<bar>" 2 k] by simp
  with assms(3) show ?thesis
    by (simp add: ulp_def max_def)
qed

lemma ulp_1_2: "1 \<le> x \<Longrightarrow> x < 2 \<Longrightarrow> ulp x = 1 / 2 ^ 52"
  using ulp_range [of 0 x] by (simp add: powr_minus powr_numeral field_simps)

lemma ulp_2_4: "2 \<le> x \<Longrightarrow> x < 4 \<Longrightarrow> ulp x = 1 / 2 ^ 51"
  using ulp_range [of 1 x] by (simp add: powr_minus powr_numeral field_simps)

lemma to_double_sqrt_2: "to_double (sqrt 2) = Num (6369051672525773 / 2 ^ 52)"
proof -
  have lo: "6369051672525772 + 1 / 2 < sqrt 2 * 2 ^ 52"
  proof -
    have "(12738103345051545 / 2 ^ 53 :: real) < sqrt 2"
      by (rule real_less_rsqrt) (simp add: power2_eq_square)
    then show ?thesis by (simp add: field_simps)
  qed
  have hi: "sqrt 2 * 2 ^ 52 < 6369051672525773"
  proof -
    have "sqrt 2 < (6369051672525773 / 2 ^ 52 :: real)"
      by (rule real_less_lsqrt) (simp_all add: power2_eq_square)
    then show ?thesis by (simp add: field_simps)
  qed
  have u: "ulp (sqrt 2) = 1 / 2 ^ 52"
  proof (rule ulp_1_2)
    show "1 \<le> sqrt 2" by simp
    show "sqrt 2 < 2" by (rule real_less_lsqrt) (simp_all add: power2_eq_square)
  qed
  define m where "m = sqrt 2 * 2 ^ 52"
  have f: "\<lfloor>m\<rfloor> = 6369051672525772"
    using lo hi unfolding m_def [symmetric] by (intro floor_unique) auto
  have "round_half_even m = 6369051672525773"
    using lo unfolding m_def [symmetric] by (simp add: round_half_even_def f)
  then have r: "round_half_even (sqrt 2 / (1 / 2 ^ 52)) = 6369051672525773"
    by (simp add: m_def)
  have nz: "sqrt 2 \<noteq> 0" by simp
  show ?thesis
    unfolding to_double_def Let_def u r using nz
    by (simp add: overflow_bound_def)
qed

lemma to_double_square:
  "to_double (6369051672525773 / 2 ^ 52 * (6369051672525773 / 2 ^ 52)) = Num (4503599627370497 / 2 ^ 51)"
proof -
  let ?x = "6369051672525773 / 2 ^ 52 * (6369051672525773 / 2 ^ 52) :: real"
  have u: "ulp ?x = 1 / 2 ^ 51"
    by (rule ulp_2_4) simp_all
  have r: "round_half_even (?x / (1 / 2 ^ 51)) = 4503599627370497"
    by (simp add: round_half_even_def)
  show ?thesis
    unfolding to_double_def Let_def u r
    by (simp add: overflow_bound_def)
qed

lemma to_double_quotient:
  "to_double (2 / (4503599627370497 / 2 ^ 51)) = Num (4503599627370495 / 2 ^ 52)"
proof -
  let ?x = "2 / (4503599627370497 / 2 ^ 51) :: real"
  have u: "ulp ?x = 1 / 2 ^ 53"
    by (rule ulp_unit_interval) simp_all
  have r: "round_half_even (?x / (1 / 2 ^ 53)) = 9007199254740990"
    by (simp add: round_half_even_def)
  show ?thesis
    unfolding to_double_def Let_def u r
    by (simp add: overflow_bound_def)
qed


lemma cosine_rounding: "cosineSimilarity [1, 1] [1, 1] = Num (4503599627370495 / 2 ^ 52)"
proof -
  define y :: real where "y = 6369051672525773 / 2 ^ 52"
  define z :: real where "z = 4503599627370497 / 2 ^ 51"
  have sq: "to_double (sqrt 2) = Num y"
    unfolding y_def by (rule to_double_sqrt_2)
  have pr: "to_double (y * y) = Num z"
    unfolding y_def z_def by (rule to_double_square)
  have qu: "to_double (2 / z) = Num (4503599627370495 / 2 ^ 52)"
    unfolding z_def by (rule to_double_quotient)
  have y0: "y \<noteq> 0" and z0: "z \<noteq> 0"
    by (simp_all add: y_def z_def)
  have mag: "magnitude [1, 1] = Num y"
    by (simp add: magnitude_def reduce_def to_double_1 to_double_2 sq)
  show ?thesis
    by (simp add: cosineSimilarity_def mag reduce_def at_index_def to_double_1 to_double_2
        pr qu y0 z0)
qed

lemma scan_append:
  "scan e qe (xs @ ys) acc = scan e qe ys (scan e qe xs acc)"
proof (induction xs arbitrary: acc)
  case Nil
  show ?case by simp
next
  case (Cons r xs)
  obtain b h w where acc: "acc = (b, h, w)" by (cases acc)
  show ?case
    unfolding acc
    by (simp add: Cons.IH Date_now_def Let_def split: option.splits sqlval.splits)
qed

lemma scan_below:
  "num_gt s h \<Longrightarrow> \<forall>r \<in> set rows. below s qe r \<Longrightarrow>
   num_gt s (fst (snd (scan e qe rows (b, h, w))))"
proof (induction rows arbitrary: b h w)
  case Nil
  then show ?case by simp
next
  case (Cons r rows)
  show ?case
  proof (cases "\<exists>u. \<not> expired (fst (Date_now e w)) r
                  \<and> property r ''semanticVector'' = Some (SNumbers u)
                  \<and> num_gt (cosineSimilarity qe u) h")
    case True
    then obtain u where live: "\<not> expired (fst (Date_now e w)) r"
      and u: "property r ''semanticVector'' = Some (SNumbers u)"
      and gt: "num_gt (cosineSimilarity qe u) h"
      by blast
    from gt have "cosineSimilarity qe u \<noteq> NaN"
      by (cases h) auto
    with Cons.prems(2) u have "num_gt s (cosineSimilarity qe u)"
      by (auto simp: below_def)
    with Cons.IH Cons.prems(2) live u gt show ?thesis
      by (simp add: Date_now_def Let_def)
  next
    case False
    with Cons.IH [OF Cons.prems(1)] Cons.prems(2) show ?thesis
      by (auto simp: Date_now_def Let_def split: option.splits sqlval.splits)
  qed
qed

text \<open>What \<open>set\<close> does: unless the embedding call throws, it replaces the row of the
  query's hash by a row with the response, the time of the call and no ttl.\<close>

lemma same_key_queryHash:
  "same_key semantic_cache_schema ((''queryHash'', SText h) # rest) r'
     = (col r' ''queryHash'' = SText h)"
  by (auto simp: same_key_def sql_eq_def semantic_cache_schema_def col_Cons)

lemma set_result:
  assumes "embedContent e q = Inr emb"
  shows "SemanticCache_set e q r ttl w =
     (Inr (), w\<lparr>clock_reads := Suc (clock_reads w),
        semantic_cache :=
          filter (\<lambda>r'. col r' ''queryHash'' \<noteq> SText (generateHash e q)) (semantic_cache w)
          @ [[(''queryHash'', SText (generateHash e q)),
              (''semanticVector'', (case emb of Some v \<Rightarrow> SNumbers v | None \<Rightarrow> SNull)),
              (''response'', SText r), (''timestamp'', SDate (clock e (clock_reads w))),
              (''ttl'', SNull)]]\<rparr>)"
proof -
  have cols: "values_row (columns semantic_cache_schema) [SText h, sv, SText r, SDate ts]
      = [(''queryHash'', SText h), (''semanticVector'', sv), (''response'', SText r),
         (''timestamp'', SDate ts), (''ttl'', SNull)]" for h sv ts
    by (simp add: values_row_def param_def semantic_cache_schema_def)
  have ok: "not_null_violation semantic_cache_schema
      [(''queryHash'', SText h), (''semanticVector'', sv), (''response'', SText r),
       (''timestamp'', SDate ts), (''ttl'', SNull)] = None" for h sv ts
    by (simp add: not_null_violation_def semantic_cache_schema_def col_Cons)
  show ?thesis
    using assms
    by (simp add: SemanticCache_set_def Date_now_def cols sql_insert_or_replace_def ok
        same_key_queryHash Let_def)
qed

lemma set_fails:
  assumes "embedContent e q = Inl err"
  shows "fst (SemanticCache_set e q r ttl w) = Inl err"
  using assms by (simp add: SemanticCache_set_def Date_now_def)


text \<open>
  C5. The claim: a \<open>get\<close> at a time when \<open>now - timestamp\<close> exceeds the ttl of an entry
  leaves the entry out of the matching and removes it from the store. The code leaves it
  out but does not remove it: \<open>row.queryHash\<close> is \<open>undefined\<close> in the rows of
  \<open>SELECT response, timestamp, ttl, semanticVector\<close>, so the DELETE deletes nothing. Here
  the store holds one entry written at time 0 with ttl 1000 and the query's own vector;
  read at time 5000 there is no match, and the store still holds the entry.
\<close>

theorem C5_expired_entry_stays_in_store:
  "SemanticCache_get (mock_env unit_embedding model_down) ''q'' (to_double (8 / 10))
     (empty_world\<lparr>semantic_cache := [stale_row], clock_reads := 5\<rparr>)
   = (Inr None, empty_world\<lparr>semantic_cache := [stale_row], clock_reads := 6\<rparr>)"
  by (simp add: SemanticCache_get_def stale_row_def expired_def unit_embedding_def sql_defs
      world_defs)

text \<open>Read at time 1000, inside its ttl, the same entry is the match.\<close>

lemma live_entry_matches:
  "SemanticCache_get (mock_env unit_embedding model_down) ''q'' (to_double (8 / 10))
     (empty_world\<lparr>semantic_cache := [stale_row], clock_reads := 1\<rparr>)
   = (Inr (Some ''old answer''), empty_world\<lparr>semantic_cache := [stale_row], clock_reads := 2\<rparr>)"
  by (simp add: SemanticCache_get_def stale_row_def expired_def unit_embedding_def sql_defs
      world_defs cosine_1_1 to_double_4_5 Let_def)

text \<open>
  C4, as amended. Let \<open>v\<close> be the embedding of \<open>q\<close>. If the threshold \<open>t\<close> is strictly
  below the similarity of \<open>v\<close> with itself as the code computes it in double arithmetic
  (1 up to rounding; \<open>NaN\<close> when the squares overflow, 0 when the computed norm is 0), and
  every entry stored under another hash has a similarity with \<open>v\<close> that is \<open>NaN\<close> or
  strictly below that self-similarity, then \<open>set(q, r)\<close> succeeds and a \<open>get(q, t)\<close>
  right after it returns \<open>r\<close>.
\<close>

theorem C4_cache_round_trip:
  assumes emb: "embedContent e q = Inr (Some v)"
    and self: "num_gt (cosineSimilarity v v) t"
    and others: "\<forall>r' \<in> set (semantic_cache w).
        col r' ''queryHash'' \<noteq> SText (generateHash e q) \<longrightarrow>
        (\<forall>u. col r' ''semanticVector'' = SNumbers u \<longrightarrow>
           cosineSimilarity v u = NaN \<or> num_gt (cosineSimilarity v v) (cosineSimilarity v u))"
  shows "fst (SemanticCache_set e q r ttl w) = Inr ()
       \<and> fst (SemanticCache_get e q t (snd (SemanticCache_set e q r ttl w))) = Inr (Some r)"
proof -
  let ?cols = "[''response'', ''timestamp'', ''ttl'', ''semanticVector'']"
  let ?kept = "filter (\<lambda>r'. col r' ''queryHash'' \<noteq> SText (generateHash e q)) (semantic_cache w)"
  let ?new = "[(''queryHash'', SText (generateHash e q)), (''semanticVector'', SNumbers v),
              (''response'', SText r), (''timestamp'', SDate (clock e (clock_reads w))),
              (''ttl'', SNull)]"
  let ?w1 = "w\<lparr>clock_reads := Suc (clock_reads w), semantic_cache := ?kept @ [?new]\<rparr>"
  have set: "SemanticCache_set e q r ttl w = (Inr (), ?w1)"
    using set_result [OF emb, of r ttl w] by simp
  have kept: "\<forall>r' \<in> set (map (sql_project ?cols) ?kept). below (cosineSimilarity v v) v r'"
    using others by (auto simp: below_def sql_project_def property_def)
  obtain b h w2 where first: "scan e v (map (sql_project ?cols) ?kept) (None, t, ?w1) = (b, h, w2)"
    by (cases "scan e v (map (sql_project ?cols) ?kept) (None, t, ?w1)")
  have h: "num_gt (cosineSimilarity v v) h"
    using scan_below [OF self kept, of e None ?w1] first by simp
  have last: "fst (scan e v [sql_project ?cols ?new] (b, h, w2)) = Some r"
    using h
    by (simp add: Date_now_def expired_def sql_project_def property_def col_def js_param_def
        text_of_def Let_def)
  have "fst (scan e v (map (sql_project ?cols) (?kept @ [?new])) (None, t, ?w1)) = Some r"
    using first last by (simp add: scan_append)
  then have "fst (SemanticCache_get e q t ?w1) = Inr (Some r)"
    using emb by (simp add: SemanticCache_get_def case_prod_beta Let_def)
  with set show ?thesis by simp
qed

text \<open>The amended round trip at the default threshold, on a store that holds an entry with
  the opposite vector.\<close>

theorem C4_cache_round_trip_witness:
  "embedContent (mock_env unit_embedding model_down) ''q'' = Inr (Some [1])
   \<and> num_gt (cosineSimilarity [1] [1]) (to_double (8 / 10))
   \<and> fst (SemanticCache_set (mock_env unit_embedding model_down) ''q'' ''r'' None
            (empty_world\<lparr>semantic_cache := [other_row [- 1]]\<rparr>)) = Inr ()
   \<and> fst (SemanticCache_get (mock_env unit_embedding model_down) ''q'' (to_double (8 / 10))
          (snd (SemanticCache_set (mock_env unit_embedding model_down) ''q'' ''r'' None
                  (empty_world\<lparr>semantic_cache := [other_row [- 1]]\<rparr>))))
     = Inr (Some ''r'')"
proof -
  let ?e = "mock_env unit_embedding model_down"
  let ?w = "empty_world\<lparr>semantic_cache := [other_row [- 1]]\<rparr>"
  have emb: "embedContent ?e ''q'' = Inr (Some [1])"
    by (simp add: mock_env_def unit_embedding_def)
  have self: "num_gt (cosineSimilarity [1] [1]) (to_double (8 / 10))"
    by (simp add: cosine_1_1 to_double_4_5)
  have others: "\<forall>r' \<in> set (semantic_cache ?w).
        col r' ''queryHash'' \<noteq> SText (generateHash ?e ''q'') \<longrightarrow>
        (\<forall>u. col r' ''semanticVector'' = SNumbers u \<longrightarrow>
           cosineSimilarity [1] u = NaN \<or> num_gt (cosineSimilarity [1] [1]) (cosineSimilarity [1] u))"
    by (simp add: empty_world_def other_row_def col_Cons cosine_1_1 cosine_1_m1)
  from C4_cache_round_trip [OF emb self others, of "''r''" None] emb self show ?thesis
    by simp
qed

text \<open>
  C4 as stated fails in four ways. With the embedding \<open>[1]\<close> for every query and an empty
  store, \<open>set('q', 'r')\<close> followed by \<open>get('q', 1)\<close> returns no match, the threshold 1 being
  allowed by the claim: the similarity 1 does not exceed it. When the store holds an
  older entry under another hash with the vector \<open>[2]\<close>, \<open>get('q', 0.8)\<close> returns that
  entry's response: it reaches similarity 1 first and the new entry does not exceed it.
  And the similarity of a vector of nonzero norm with itself need not be 1 in double
  arithmetic: for the embedding \<open>[huge]\<close>, the double \<open>2^700\<close>, the square overflows, the
  similarity is \<open>NaN\<close> and \<open>get('q', 0.5)\<close> returns no match; for the embedding
  \<open>[1, 1]\<close> the similarity is \<open>1 - 2^-52\<close> and \<open>get\<close> with the threshold \<open>1 - 2^-53\<close>
  returns no match.
\<close>

theorem C4_round_trip_counterexample:
  "fst (SemanticCache_get (mock_env unit_embedding model_down) ''q'' (Num 1)
          (snd (SemanticCache_set (mock_env unit_embedding model_down) ''q'' ''r'' None
                  empty_world)))
     = Inr None
   \<and> fst (SemanticCache_get (mock_env unit_embedding model_down) ''q'' (to_double (8 / 10))
          (snd (SemanticCache_set (mock_env unit_embedding model_down) ''q'' ''r'' None
                  (empty_world\<lparr>semantic_cache := [other_row [2]]\<rparr>))))
     = Inr (Some ''other answer'')
   \<and> fst (SemanticCache_get (mock_env (fixed_embedding [huge]) model_down) ''q'' (Num (1 / 2))
          (snd (SemanticCache_set (mock_env (fixed_embedding [huge]) model_down) ''q'' ''r''
                  None empty_world)))
     = Inr None
   \<and> fst (SemanticCache_get (mock_env (fixed_embedding [1, 1]) model_down) ''q''
          (Num (1 - 1 / 2 ^ 53))
          (snd (SemanticCache_set (mock_env (fixed_embedding [1, 1]) model_down) ''q'' ''r''
                  None empty_world)))
     = Inr None"
  by (simp add: SemanticCache_get_def SemanticCache_set_def semantic_cache_schema_def
      expired_def unit_embedding_def fixed_embedding_def other_row_def sql_defs world_defs
      cosine_1_1 cosine_1_2 cosine_overflow cosine_rounding to_double_4_5 generateHash_def
      Let_def)

text \<open>Underflow has the same effect: the squares of \<open>tiny\<close>, the double \<open>2^-600\<close>, round
  to 0, the computed norm is 0 and the similarity of \<open>[tiny]\<close> with itself is 0.\<close>

lemma round_trip_underflow:
  "fst (SemanticCache_get (mock_env (fixed_embedding [tiny]) model_down) ''q'' (Num (1 / 2))
          (snd (SemanticCache_set (mock_env (fixed_embedding [tiny]) model_down) ''q'' ''r''
                  None empty_world)))
     = Inr None"
  by (simp add: SemanticCache_get_def SemanticCache_set_def semantic_cache_schema_def
      expired_def fixed_embedding_def sql_defs world_defs cosine_underflow generateHash_def
      Let_def)

text \<open>A store whose rows all have a NULL ttl keeps that property through \<open>set\<close>.\<close>

lemma set_preserves_null_ttl:
  assumes "\<forall>r' \<in> set (semantic_cache w). col r' ''ttl'' = SNull"
  shows "\<forall>r' \<in> set (semantic_cache (snd (SemanticCache_set e q r ttl w))). col r' ''ttl'' = SNull"
proof (cases "embedContent e q")
  case (Inl err)
  with assms show ?thesis by (simp add: SemanticCache_set_def Date_now_def)
next
  case (Inr emb)
  with assms show ?thesis by (auto simp: set_result col_Cons)
qed

text \<open>
  C10. Whenever \<open>set(q, r, ttl)\<close> succeeds, the row it has written (the last of the table,
  the older rows of other hashes before it) has the hash of \<open>q\<close>, the response \<open>r\<close> and a
  NULL ttl, and the call did what it does without a ttl; the TTL check of \<open>get\<close> is false
  for this row at every time, and a \<open>get\<close> on any store that holds the row leaves it
  there.
\<close>

theorem C10_set_writes_null_ttl:
  assumes "SemanticCache_set e q r ttl w = (Inr (), w')"
  shows "semantic_cache w' \<noteq> []
       \<and> col (last (semantic_cache w')) ''queryHash'' = SText (generateHash e q)
       \<and> col (last (semantic_cache w')) ''response'' = SText r
       \<and> col (last (semantic_cache w')) ''ttl'' = SNull
       \<and> butlast (semantic_cache w')
           = filter (\<lambda>r'. col r' ''queryHash'' \<noteq> SText (generateHash e q)) (semantic_cache w)
       \<and> SemanticCache_set e q r None w = (Inr (), w')
       \<and> (\<forall>now. \<not> expired now
              (sql_project [''response'', ''timestamp'', ''ttl'', ''semanticVector'']
                 (last (semantic_cache w'))))
       \<and> (\<forall>e' q' t' w''. last (semantic_cache w') \<in> set (semantic_cache w'')
              \<longrightarrow> last (semantic_cache w')
                    \<in> set (semantic_cache (snd (SemanticCache_get e' q' t' w''))))"
proof (cases "embedContent e q")
  case (Inl err)
  with assms show ?thesis
    using set_fails [OF Inl, of r ttl w] by simp
next
  case (Inr emb)
  from assms set_result [OF Inr, of r ttl w] set_result [OF Inr, of r None w]
  show ?thesis
    by (auto simp: col_Cons expired_def sql_project_def property_def get_cache_unchanged)
qed

theorem C10_set_writes_null_ttl_witness:
  "SemanticCache_set (mock_env unit_embedding model_down) ''q'' ''r'' (Some 60000) empty_world
     = (Inr (), empty_world\<lparr>clock_reads := 1, semantic_cache :=
          [[(''queryHash'', SText ''sha256:q''), (''semanticVector'', SNumbers [1]),
            (''response'', SText ''r''), (''timestamp'', SDate 0), (''ttl'', SNull)]]\<rparr>)
   \<and> col (last (semantic_cache (empty_world\<lparr>clock_reads := 1, semantic_cache :=
          [[(''queryHash'', SText ''sha256:q''), (''semanticVector'', SNumbers [1]),
            (''response'', SText ''r''), (''timestamp'', SDate 0), (''ttl'', SNull)]]\<rparr>)))
        ''ttl'' = SNull"
proof -
  let ?e = "mock_env unit_embedding model_down"
  let ?w' = "empty_world\<lparr>clock_reads := 1, semantic_cache :=
          [[(''queryHash'', SText ''sha256:q''), (''semanticVector'', SNumbers [1]),
            (''response'', SText ''r''), (''timestamp'', SDate 0), (''ttl'', SNull)]]\<rparr>"
  have run: "SemanticCache_set ?e ''q'' ''r'' (Some 60000) empty_world = (Inr (), ?w')"
    by (simp add: SemanticCache_set_def semantic_cache_schema_def unit_embedding_def
        generateHash_def sql_defs world_defs)
  from C10_set_writes_null_ttl [OF run] run show ?thesis
    by simp
qed

subsection \<open>GeminiDispatcher\<close>

text \<open>\<open>includes\<close> finds a text exactly when the text is a contiguous part.\<close>

lemma String_includes_sublist: "String_includes s pat = sublist pat s"
  by (induction s) (simp_all add: sublist_Cons_right)

lemma String_includes_iff: "String_includes s pat \<longleftrightarrow> (\<exists>pre post. s = pre @ pat @ post)"
  by (simp add: String_includes_sublist sublist_def)

lemma includes_toLowerCase:
  "String_includes (toLowerCase s) pat
     \<longleftrightarrow> (\<exists>pre mid post. s = pre @ mid @ post \<and> toLowerCase mid = pat)"
proof
  assume "String_includes (toLowerCase s) pat"
  then obtain a c where "map toLowerCase_char s = a @ pat @ c"
    by (auto simp: String_includes_iff toLowerCase_def)
  then have "\<exists>us vs. s = us @ vs \<and> a = map toLowerCase_char us
                \<and> pat @ c = map toLowerCase_char vs"
    by (simp add: map_eq_append_conv)
  then obtain us vs where s: "s = us @ vs" and vs: "map toLowerCase_char vs = pat @ c"
    by auto
  from vs have "\<exists>ms ps. vs = ms @ ps \<and> pat = map toLowerCase_char ms
                  \<and> c = map toLowerCase_char ps"
    by (simp add: map_eq_append_conv)
  then obtain ms ps where "vs = ms @ ps" and "map toLowerCase_char ms = pat"
    by auto
  with s show "\<exists>pre mid post. s = pre @ mid @ post \<and> toLowerCase mid = pat"
    by (auto simp: toLowerCase_def)
next
  assume "\<exists>pre mid post. s = pre @ mid @ post \<and> toLowerCase mid = pat"
  then obtain pre mid post where "s = pre @ mid @ post" and "toLowerCase mid = pat"
    by blast
  then have "toLowerCase s = toLowerCase pre @ pat @ toLowerCase post"
    by (simp add: toLowerCase_def)
  then show "String_includes (toLowerCase s) pat"
    unfolding String_includes_iff by blast
qed

text \<open>With embeddings unavailable every \<open>sendMessage\<close> asks the model and caches the
  answer without a vector.\<close>

lemma sendMessage_no_embedding:
  assumes emb: "embedContent e p = Inr None"
  shows "sendMessage e q p w
    = (case sendMessageStream e (model_calls w) p (quest_id q) of
         Inl err \<Rightarrow> (Inl err, w\<lparr>model_calls := Suc (model_calls w)\<rparr>)
       | Inr chunks \<Rightarrow>
           (Inr (fullResponse_of chunks),
            w\<lparr>model_calls := Suc (model_calls w), clock_reads := Suc (clock_reads w),
              semantic_cache :=
                filter (\<lambda>r'. col r' ''queryHash'' \<noteq> SText (generateHash e p)) (semantic_cache w)
                @ [[(''queryHash'', SText (generateHash e p)), (''semanticVector'', SNull),
                    (''response'', SText (fullResponse_of chunks)),
                    (''timestamp'', SDate (clock e (clock_reads w))), (''ttl'', SNull)]]\<rparr>))"
proof -
  have g: "SemanticCache_get e p t w = (Inr None, w)" for t
    using emb by (simp add: SemanticCache_get_def)
  show ?thesis
    by (simp add: sendMessage_def g askModel_def set_result [OF emb] Let_def split: sum.splits)
qed

lemma sendMessage_miss:
  "sendMessage (mock_env no_embedding (model_says a)) q p w
    = (Inr a, w\<lparr>model_calls := Suc (model_calls w), clock_reads := Suc (clock_reads w),
         semantic_cache :=
           filter (\<lambda>r'. col r' ''queryHash'' \<noteq> SText (''sha256:'' @ p)) (semantic_cache w)
           @ [[(''queryHash'', SText (''sha256:'' @ p)), (''semanticVector'', SNull),
               (''response'', SText a), (''timestamp'', SDate (1000 * int (clock_reads w))),
               (''ttl'', SNull)]]\<rparr>)"
proof -
  let ?e = "mock_env no_embedding (model_says a)"
  have emb: "embedContent ?e p = Inr None"
    by (simp add: mock_env_def no_embedding_def)
  have m: "sendMessageStream ?e (model_calls w) p (quest_id q) = Inr [Content a]"
    by (simp add: mock_env_def model_says_def)
  show ?thesis
    by (simp add: sendMessage_no_embedding [OF emb] m)
       (simp add: mock_env_def generateHash_def)
qed

text \<open>
  C7. Whenever \<open>dispatchAtomic\<close> returns a result for a task, the result carries the task
  and the text that \<open>sendMessage\<close> returned as its outcome, and its \<open>nextState\<close> is
  \<open>done\<close> exactly when some contiguous part of the outcome is the word "success" up to
  letter case, and \<open>operational\<close> exactly when there is no such part.
\<close>

theorem C7_dispatchAtomic_nextState:
  assumes "dispatchAtomic e q t w = (Inr res, w1)"
  shows "result_task res = t
       \<and> sendMessage e q (atomic_prompt (task t)) w = (Inr (outcome res), w1)
       \<and> (nextState res = Some NextDone
            \<longleftrightarrow> (\<exists>pre mid post. outcome res = pre @ mid @ post \<and> toLowerCase mid = ''success''))
       \<and> (nextState res = Some NextOperational
            \<longleftrightarrow> \<not> (\<exists>pre mid post. outcome res = pre @ mid @ post \<and> toLowerCase mid = ''success''))"
  using assms
  unfolding includes_toLowerCase [symmetric]
  by (auto simp: dispatchAtomic_def split: prod.splits sum.splits if_splits)

theorem C7_dispatchAtomic_nextState_witness:
  "fst (dispatchAtomic (mock_env no_embedding (model_says ''Build SUCCESSful'')) sample_quest
          \<lparr>task = ''deploy'', suggestedTool = ''runShellCommand''\<rparr> empty_world)
     = Inr \<lparr>result_task = \<lparr>task = ''deploy'', suggestedTool = ''runShellCommand''\<rparr>,
            outcome = ''Build SUCCESSful'', nextState = Some NextDone\<rparr>
   \<and> (\<exists>pre mid post. ''Build SUCCESSful'' = pre @ mid @ post \<and> toLowerCase mid = ''success'')
   \<and> fst (dispatchAtomic (mock_env no_embedding (model_says ''rm -rf build'')) sample_quest
          \<lparr>task = ''deploy'', suggestedTool = ''runShellCommand''\<rparr> empty_world)
     = Inr \<lparr>result_task = \<lparr>task = ''deploy'', suggestedTool = ''runShellCommand''\<rparr>,
            outcome = ''rm -rf build'', nextState = Some NextOperational\<rparr>
   \<and> \<not> (\<exists>pre mid post. ''rm -rf build'' = pre @ mid @ post \<and> toLowerCase mid = ''success'')"
proof -
  let ?t = "\<lparr>task = ''deploy'', suggestedTool = ''runShellCommand''\<rparr>"
  obtain r1 w1 where
    d1: "dispatchAtomic (mock_env no_embedding (model_says ''Build SUCCESSful'')) sample_quest
           ?t empty_world = (Inr r1, w1)"
    and r1: "r1 = \<lparr>result_task = ?t, outcome = ''Build SUCCESSful'', nextState = Some NextDone\<rparr>"
    by (simp add: dispatchAtomic_def sendMessage_miss toLowerCase_def toLowerCase_char_def)
  obtain r2 w2 where
    d2: "dispatchAtomic (mock_env no_embedding (model_says ''rm -rf build'')) sample_quest
           ?t empty_world = (Inr r2, w2)"
    and r2: "r2 = \<lparr>result_task = ?t, outcome = ''rm -rf build'', nextState = Some NextOperational\<rparr>"
    by (simp add: dispatchAtomic_def sendMessage_miss toLowerCase_def toLowerCase_char_def)
  from C7_dispatchAtomic_nextState [OF d1] C7_dispatchAtomic_nextState [OF d2] d1 d2 r1 r2
  show ?thesis
    by simp
qed

text \<open>
  C6. Whenever the model's answer for the operational prompt arrives (\<open>sendMessage\<close> returns
  a text), \<open>dispatchOperational\<close> returns without throwing: the empty task list if the
  text does not parse as JSON, the parsed value if it does.
\<close>

theorem C6_dispatchOperational_parse:
  assumes "sendMessage e q (operational_prompt (js_string tactical_plan)) w = (Inr resp, w1)"
  shows "(JSON_parse_tasks e resp = None
            \<longrightarrow> dispatchOperational e q tactical_plan w = (Inr [], w1))
       \<and> (\<forall>ts. JSON_parse_tasks e resp = Some ts
            \<longrightarrow> dispatchOperational e q tactical_plan w = (Inr ts, w1))"
  using assms by (simp add: dispatchOperational_def)

theorem C6_dispatchOperational_parse_witness:
  "JSON_parse_tasks (mock_env no_embedding (model_says ''not a json string''))
      ''not a json string'' = None
   \<and> fst (dispatchOperational (mock_env no_embedding (model_says ''not a json string''))
            sample_quest (Some ''plan'') empty_world) = Inr []
   \<and> fst (dispatchOperational (mock_env no_embedding (model_says ''[deploy]''))
            sample_quest (Some ''plan'') empty_world)
       = Inr [\<lparr>task = ''deploy'', suggestedTool = ''runShellCommand''\<rparr>]"
proof -
  let ?bad = "mock_env no_embedding (model_says ''not a json string'')"
  let ?good = "mock_env no_embedding (model_says ''[deploy]'')"
  obtain w1 where s1: "sendMessage ?bad sample_quest (operational_prompt (js_string (Some ''plan'')))
      empty_world = (Inr ''not a json string'', w1)"
    by (simp add: sendMessage_miss)
  obtain w2 where s2: "sendMessage ?good sample_quest (operational_prompt (js_string (Some ''plan'')))
      empty_world = (Inr ''[deploy]'', w2)"
    by (simp add: sendMessage_miss)
  have p1: "JSON_parse_tasks ?bad ''not a json string'' = None"
    by (simp add: mock_env_def mock_parse_tasks_def)
  have p2: "JSON_parse_tasks ?good ''[deploy]''
      = Some [\<lparr>task = ''deploy'', suggestedTool = ''runShellCommand''\<rparr>]"
    by (simp add: mock_env_def mock_parse_tasks_def)
  from C6_dispatchOperational_parse [OF s1] C6_dispatchOperational_parse [OF s2] p1 p2
  show ?thesis
    by simp
qed

subsection \<open>LevelCoordinator\<close>

declare coordinate_loop.simps [simp del]

lemma coordinate_loop_done:
  "currentState c = DONE \<Longrightarrow> coordinate_loop n e tp c w = Some (Inr (atomicResults c), w)"
  by (subst coordinate_loop.simps) simp

lemma coordinate_loop_Suc:
  "currentState c \<noteq> DONE \<Longrightarrow>
   coordinate_loop (Suc k) e tp c w =
     (case iteration e tp c w of
        (Inl err, w1) \<Rightarrow> Some (Inl err, w1)
      | (Inr c', w1) \<Rightarrow> coordinate_loop k e tp c' w1)"
  by (subst coordinate_loop.simps) simp

lemma coordinate_loop_0:
  "currentState c \<noteq> DONE \<Longrightarrow> coordinate_loop 0 e tp c w = None"
  by (subst coordinate_loop.simps) simp

text \<open>The code's choice after an atomic batch is the one of the table.\<close>

lemma after_atomic_table: "after_atomic results = table_next ATOMIC (Inr results)"
proof (cases "results = []")
  case True
  then show ?thesis by (simp add: after_atomic_def table_next_def)
next
  case False
  then have "results ! (length results - 1) = last results"
    by (simp add: last_conv_nth)
  with False show ?thesis
    by (simp add: after_atomic_def table_next_def Let_def)
qed

lemma attempt_state:
  "currentState (fst (fst (attempt e tp c w))) = table_next (currentState c) (level_call tp c w)"
  by (cases "currentState c")
     (auto simp: attempt_def level_call_def forget_def caught_def table_next_def after_atomic_table
           split: prod.splits sum.splits)

lemma iteration_attempt:
  assumes "iteration e tp c w = (Inr c', w')"
  shows "c' = fst (fst (attempt e tp c (snd (Date_now e w))))"
  using assms
  by (auto simp: iteration_def Let_def split: prod.splits sum.splits)

text \<open>
  C1. In every state, with every pyramid, the state after the \<open>try\<close> and \<open>catch\<close> blocks
  of an iteration is the one the transition table gives for the current state and the
  result of the level's call; in particular it is \<open>DONE\<close> when the call threw, whatever
  the state was. The same holds for the state that a whole iteration hands to the next
  turn of the loop.
\<close>

theorem C1_transitions_follow_table:
  "currentState (fst (fst (attempt e tp c w))) = table_next (currentState c) (level_call tp c w)
   \<and> (\<forall>err. level_call tp c w = Inl err \<longrightarrow> currentState (fst (fst (attempt e tp c w))) = DONE)
   \<and> (\<forall>c' w'. iteration e tp c w = (Inr c', w')
         \<longrightarrow> currentState c' = table_next (currentState c) (level_call tp c (snd (Date_now e w))))"
  using attempt_state [of e tp c w] iteration_attempt [of e tp c w]
    attempt_state [of e tp c "snd (Date_now e w)"]
  by (auto simp: table_next_def)

theorem C1_transitions_follow_table_witness:
  "currentState (fst (fst (attempt (mock_env no_embedding model_down)
      (mock_pyramid (Inr ''PLAN'')
         (Inr [\<lparr>result_task = \<lparr>task = ''deploy'', suggestedTool = ''runShellCommand''\<rparr>,
                outcome = ''failed'', nextState = Some NextOperational\<rparr>]))
      (new_LevelCoordinator\<lparr>currentState := ATOMIC\<rparr>) empty_world))) = OPERATIONAL
   \<and> currentState (fst (fst (attempt (mock_env no_embedding model_down)
      (mock_pyramid (Inr ''PLAN'') (Inl (Error ''boom'')))
      (new_LevelCoordinator\<lparr>currentState := ATOMIC\<rparr>) empty_world))) = DONE
   \<and> currentState (fst (fst (attempt (mock_env no_embedding model_down)
      (mock_pyramid (Inr ''PLAN'') (Inr [])) new_LevelCoordinator empty_world))) = TACTICAL"
proof -
  let ?e = "mock_env no_embedding model_down"
  let ?batch = "[\<lparr>result_task = \<lparr>task = ''deploy'', suggestedTool = ''runShellCommand''\<rparr>,
                  outcome = ''failed'', nextState = Some NextOperational\<rparr>]"
  let ?c = "new_LevelCoordinator\<lparr>currentState := ATOMIC\<rparr>"
  have call1: "level_call (mock_pyramid (Inr ''PLAN'') (Inr ?batch)) ?c empty_world = Inr ?batch"
    by (simp add: level_call_def mock_pyramid_def)
  have call2: "level_call (mock_pyramid (Inr ''PLAN'') (Inl (Error ''boom''))) ?c empty_world
      = Inl (Error ''boom'')"
    by (simp add: level_call_def mock_pyramid_def)
  have call3: "level_call (mock_pyramid (Inr ''PLAN'') (Inr [])) new_LevelCoordinator empty_world
      = Inr []"
    by (simp add: level_call_def mock_pyramid_def new_LevelCoordinator_def forget_def)
  from C1_transitions_follow_table [of ?e "mock_pyramid (Inr ''PLAN'') (Inr ?batch)" ?c empty_world]
    C1_transitions_follow_table [of ?e "mock_pyramid (Inr ''PLAN'') (Inl (Error ''boom''))" ?c
      empty_world]
    C1_transitions_follow_table [of ?e "mock_pyramid (Inr ''PLAN'') (Inr [])"
      new_LevelCoordinator empty_world]
    call1 call2 call3
  show ?thesis
    by (simp add: table_next_def new_LevelCoordinator_def)
qed

text \<open>The state that the \<open>finally\<close> block reads is never \<open>STRATEGIC\<close>, so no log entry
  has the level \<open>strategic\<close> or the input that \<open>getLogInput\<close> keeps for that state.\<close>

lemma attempt_never_strategic:
  "currentState (fst (fst (attempt e tp c w))) \<noteq> STRATEGIC"
  by (simp add: attempt_state table_next_def split: sum.splits QuestState.splits)

text \<open>
  C2. The claim: the row of an iteration is attributed to the level that was attempted,
  with the input of that level. The code builds the row after the state has moved on: the
  first iteration of a run, which attempts the strategic level, writes one row with level
  \<open>tactical\<close> and the plan just produced as input when the call succeeds, and one row with
  level \<open>done\<close> and an empty input when it throws.
\<close>

theorem C2_log_row_names_next_state:
  "map_sum id (map (\<lambda>l. (level l, log_input l, log_output l, status l)))
     (analyzePastExecutions
        (snd (iteration (mock_env no_embedding model_down) (mock_pyramid (Inr ''PLAN'') (Inr []))
                new_LevelCoordinator empty_world)))
     = Inr [(''tactical'', ''PLAN'', ''PLAN'', ''success'')]
   \<and> map_sum id (map (\<lambda>l. (level l, log_input l, log_output l, status l)))
     (analyzePastExecutions
        (snd (iteration (mock_env no_embedding model_down)
                (mock_pyramid (Inl (Error ''boom'')) (Inr []))
                new_LevelCoordinator empty_world)))
     = Inr [(''done'', [], ''Error: boom'', ''failure'')]"
  by (simp add: iteration_def attempt_def new_LevelCoordinator_def mock_pyramid_def caught_def
      succeeded_def logEntry_of_def getLogInput_def or_empty_def toLowerCase_def
      toLowerCase_char_def logExecution_def analyzePastExecutions_def log_of_row_def
      execution_logs_schema_def toolCalls_cell_def text_or_null_def sql_defs world_defs
      LogInput.extend_def sample_quest_def)

subsection \<open>QuestManager\<close>

text \<open>No step of an execution writes to the quests table.\<close>

lemma quests_scan: "quests (snd (snd (scan e qe rows (b, h, w)))) = quests w"
  by (induction rows arbitrary: b h w)
     (simp_all add: Date_now_def Let_def split: option.splits sqlval.splits)

lemma quests_get: "quests (snd (SemanticCache_get e q t w)) = quests w"
  by (simp add: SemanticCache_get_def case_prod_beta Let_def quests_scan
      split: sum.splits option.splits)

lemma quests_set: "quests (snd (SemanticCache_set e q r ttl w)) = quests w"
  by (simp add: SemanticCache_set_def Date_now_def Let_def split: sum.splits)

lemma quests_askModel: "quests (snd (askModel e q p w)) = quests w"
proof (cases "sendMessageStream e (model_calls w) p (quest_id q)")
  case (Inl err)
  then show ?thesis by (simp add: askModel_def Let_def)
next
  case (Inr chunks)
  let ?w1 = "w\<lparr>model_calls := Suc (model_calls w)\<rparr>"
  have "quests (snd (SemanticCache_set e p (fullResponse_of chunks) None ?w1)) = quests ?w1"
    by (rule quests_set)
  with Inr show ?thesis
    by (auto simp: askModel_def Let_def split: prod.splits sum.splits)
qed

lemma quests_sendMessage: "quests (snd (sendMessage e q p w)) = quests w"
proof -
  obtain r w1 where g: "SemanticCache_get e p (to_double (8 / 10)) w = (r, w1)"
    by (cases "SemanticCache_get e p (to_double (8 / 10)) w")
  with quests_get [of e p "to_double (8 / 10)" w] have w1: "quests w1 = quests w"
    by simp
  show ?thesis
    using g w1 quests_askModel [of e q p w1]
    by (auto simp: sendMessage_def split: sum.splits option.splits)
qed

lemma quests_dispatchStrategic: "quests (snd (dispatchStrategic e q d w)) = quests w"
  by (simp add: dispatchStrategic_def retrieveKnowledge_def Let_def quests_sendMessage)

lemma quests_dispatchTactical: "quests (snd (dispatchTactical e q p w)) = quests w"
  by (simp add: dispatchTactical_def quests_sendMessage)

lemma quests_dispatchOperational: "quests (snd (dispatchOperational e q p w)) = quests w"
  using quests_sendMessage [of e q "operational_prompt (js_string p)" w]
  by (auto simp: dispatchOperational_def split: prod.splits sum.splits option.splits)

lemma quests_dispatchAtomic: "quests (snd (dispatchAtomic e q t w)) = quests w"
  using quests_sendMessage [of e q "atomic_prompt (task t)" w]
  by (auto simp: dispatchAtomic_def Let_def split: prod.splits sum.splits)

lemma quests_atomic_loop: "quests (snd (atomic_loop e q ts results w)) = quests w"
proof (induction ts arbitrary: results w)
  case Nil
  show ?case by simp
next
  case (Cons t ts)
  show ?case
    using quests_dispatchAtomic [of e q t w]
    by (auto simp: Cons.IH split: prod.splits sum.splits)
qed

lemma quests_executeAtomicLevel:
  "quests (snd (TaskPyramid_executeAtomicLevel e q ts w)) = quests w"
  by (simp add: TaskPyramid_executeAtomicLevel_def quests_atomic_loop split: option.splits)

lemma quests_logExecution: "quests (snd (logExecution e entry w)) = quests w"
  by (simp add: logExecution_def Date_now_def new_uuid_def Let_def split: sum.splits)

lemma quests_attempt: "quests (snd (attempt e (new_TaskPyramid e q) c w)) = quests w"
proof (cases "currentState c")
  case STRATEGIC
  then show ?thesis
    using quests_dispatchStrategic [of e q "description (config q)" w]
    by (auto simp: attempt_def new_TaskPyramid_def split: prod.splits sum.splits)
next
  case TACTICAL
  then show ?thesis
    using quests_dispatchTactical [of e q "strategicPlan c" w]
    by (auto simp: attempt_def new_TaskPyramid_def split: prod.splits sum.splits)
next
  case OPERATIONAL
  then show ?thesis
    using quests_dispatchOperational [of e q "tacticalPlan c" w]
    by (auto simp: attempt_def new_TaskPyramid_def split: prod.splits sum.splits)
next
  case ATOMIC
  then show ?thesis
    using quests_executeAtomicLevel [of e q "operationalTasks c" w]
    by (auto simp: attempt_def new_TaskPyramid_def split: prod.splits sum.splits)
next
  case DONE
  then show ?thesis by (simp add: attempt_def)
qed

lemma quests_iteration: "quests (snd (iteration e (new_TaskPyramid e q) c w)) = quests w"
proof -
  let ?w1 = "snd (Date_now e w)"
  obtain c' a w2 where att: "attempt e (new_TaskPyramid e q) c ?w1 = ((c', a), w2)"
    by (metis surj_pair)
  with quests_attempt [of e q c ?w1] have w2: "quests w2 = quests w"
    by (simp add: Date_now_def)
  let ?w3 = "snd (Date_now e w2)"
  let ?entry = "logEntry_of e (quest_id (quest (new_TaskPyramid e q))) c' a
                  (fst (Date_now e w2) - fst (Date_now e w))"
  obtain rl w4 where lg: "logExecution e ?entry ?w3 = (rl, w4)"
    by (cases "logExecution e ?entry ?w3")
  with quests_logExecution [of e ?entry ?w3] w2 have w4: "quests w4 = quests w"
    by (simp add: Date_now_def)
  have "snd (iteration e (new_TaskPyramid e q) c w) = w4"
    using att lg by (cases rl) (simp_all add: iteration_def Let_def case_prod_beta)
  with w4 show ?thesis by simp
qed

lemma quests_coordinate_loop:
  "coordinate_loop n e (new_TaskPyramid e q) c w = Some (r, w') \<Longrightarrow> quests w' = quests w"
proof (induction n arbitrary: c w)
  case 0
  then show ?case
    by (subst (asm) coordinate_loop.simps) (simp split: if_splits)
next
  case (Suc n)
  obtain r1 w1 where it: "iteration e (new_TaskPyramid e q) c w = (r1, w1)"
    by (cases "iteration e (new_TaskPyramid e q) c w")
  with quests_iteration [of e q c w] have w1: "quests w1 = quests w"
    by simp
  show ?case
  proof (cases "currentState c = DONE")
    case True
    with Suc.prems show ?thesis
      by (subst (asm) coordinate_loop.simps) simp
  next
    case False
    show ?thesis
    proof (cases r1)
      case (Inl err)
      with Suc.prems False it w1 show ?thesis
        by (subst (asm) coordinate_loop.simps) simp
    next
      case (Inr c')
      with Suc.prems False it have "coordinate_loop n e (new_TaskPyramid e q) c' w1 = Some (r, w')"
        by (subst (asm) coordinate_loop.simps) simp
      from Suc.IH [OF this] w1 show ?thesis by simp
    qed
  qed
qed

lemma executeQuest_leaves_quests:
  "executeQuest n e qid w = Some (r, w') \<Longrightarrow> quests w' = quests w"
proof (cases "getQuest qid w")
  case None
  then show "executeQuest n e qid w = Some (r, w') \<Longrightarrow> quests w' = quests w"
    by (simp add: executeQuest_def)
next
  case (Some q)
  then show "executeQuest n e qid w = Some (r, w') \<Longrightarrow> quests w' = quests w"
    using quests_coordinate_loop [of n e q new_LevelCoordinator w r w']
    by (simp add: executeQuest_def coordinate_def)
qed

lemma executeQuest_leaves_record:
  "executeQuest n e qid w = Some (r, w') \<Longrightarrow> getQuest qid w' = getQuest qid w"
  by (simp add: getQuest_def findById_def executeQuest_leaves_quests)


lemma mock_no_embedding: "embedContent (mock_env no_embedding answer) p = Inr None"
  by (simp add: mock_env_def no_embedding_def)

lemma mock_selectors:
  "clock (mock_env emb answer) n = 1000 * int n"
  "uuidv4 (mock_env emb answer) n = ''uuid-'' @ replicate n (CHR ''x'')"
  "generateHash (mock_env emb answer) p = ''sha256:'' @ p"
  "sendMessageStream (mock_env emb answer) n p sid = answer n p"
  "JSON_parse_tasks (mock_env emb answer) = mock_parse_tasks"
  "JSON_stringify_tasks (mock_env emb answer) ts = ''['' @ join '','' (map task ts) @ '']''"
  "JSON_stringify_results (mock_env emb answer) (Some l) = ''['' @ join '','' (map outcome l) @ '']''"
  by (simp_all add: mock_env_def generateHash_def)

lemmas run_defs = executeQuest_def getQuest_def findById_def coordinate_def new_LevelCoordinator_def
  iteration_def attempt_def new_TaskPyramid_def caught_def succeeded_def logEntry_of_def
  getLogInput_def or_empty_def after_atomic_def TaskPyramid_executeAtomicLevel_def
  dispatchStrategic_def dispatchTactical_def dispatchOperational_def dispatchAtomic_def
  retrieveKnowledge_def sql_limit_def
  logExecution_def analyzePastExecutions_def log_of_row_def execution_logs_schema_def
  toolCalls_cell_def text_or_null_def LogInput.extend_def toLowerCase_def toLowerCase_char_def
  sample_quest_def mock_parse_tasks_def
  coordinate_loop_done coordinate_loop_Suc sendMessage_no_embedding mock_no_embedding
  mock_selectors sql_defs Date_now_def new_uuid_def empty_world_def

text \<open>
  C3. The claim: after a failed execution the persisted quest has status \<open>failed\<close> and an
  error. In the code the coordinator catches the error, logs it and ends, \<open>executeQuest\<close>
  resolves, and nothing updates the quest: with a model that is down, executing the
  pending quest \<open>q1\<close> returns no result, logs one failure, and the quest read back is still
  \<open>pending\<close> with no error.
\<close>

theorem C3_failed_quest_stays_pending:
  "(case executeQuest 1 (mock_env no_embedding model_down) ''q1''
           (empty_world\<lparr>quests := [sample_quest]\<rparr>) of
      None \<Rightarrow> False
    | Some (r, w') \<Rightarrow>
        r = Inr None
        \<and> map_option (\<lambda>q. (quest_status q, quest_error q)) (getQuest ''q1'' w')
            = Some (pending, None)
        \<and> map_sum id (map (\<lambda>l. (level l, status l, log_error l))) (analyzePastExecutions w')
            = Inr [(''done'', ''failure'', Some ''model unavailable'')])"
  by (simp add: run_defs model_down_def)

text \<open>A run that succeeds: four iterations, the final batch as the result, and the four
  log rows, each under the name of the state that followed its level.\<close>

lemma executeQuest_full_run:
  "(case executeQuest 4 (mock_env no_embedding scripted_model) ''q1''
           (empty_world\<lparr>quests := [sample_quest]\<rparr>) of
      None \<Rightarrow> False
    | Some (r, w') \<Rightarrow>
        r = Inr (Some [\<lparr>result_task = \<lparr>task = ''deploy'', suggestedTool = ''runShellCommand''\<rparr>,
                        outcome = ''Done: Success'', nextState = Some NextDone\<rparr>])
        \<and> map_sum id (map (\<lambda>l. (level l, log_input l, log_output l, status l))) (analyzePastExecutions w')
            = Inr [(''tactical'', ''Done: Success'', ''Done: Success'', ''success''),
                   (''operational'', ''Done: Success'', ''Done: Success'', ''success''),
                   (''atomic'', ''[deploy]'', ''[deploy]'', ''success''),
                   (''done'', [], ''[Done: Success]'', ''success'')])"
  by (simp add: run_defs scripted_model_def eval_nat_numeral Let_def strategic_prompt_def
      tactical_prompt_def operational_prompt_def atomic_prompt_def js_string_def)


subsection \<open>The loop and its bound\<close>

text \<open>A run that ends within a bound ends the same way within every larger bound.\<close>

lemma coordinate_loop_more_fuel:
  "coordinate_loop n e tp c w = Some r \<Longrightarrow> coordinate_loop (n + k) e tp c w = Some r"
proof (induction n arbitrary: c w)
  case 0
  then show ?case
    by (cases "currentState c = DONE") (simp_all add: coordinate_loop_done coordinate_loop_0)
next
  case (Suc n)
  show ?case
  proof (cases "currentState c = DONE")
    case True
    with Suc.prems show ?thesis by (simp add: coordinate_loop_done)
  next
    case False
    obtain r1 w1 where it: "iteration e tp c w = (r1, w1)"
      by (cases "iteration e tp c w")
    show ?thesis
    proof (cases r1)
      case (Inl err)
      with Suc.prems False it show ?thesis by (simp add: coordinate_loop_Suc)
    next
      case (Inr c')
      with Suc.prems False it have "coordinate_loop n e tp c' w1 = Some r"
        by (simp add: coordinate_loop_Suc)
      from Suc.IH [OF this] False it Inr show ?thesis
        by (simp add: coordinate_loop_Suc)
    qed
  qed
qed

text \<open>
  The loop need not end: while the last atomic result keeps asking for another operational
  pass, the coordinator alternates between \<open>OPERATIONAL\<close> and \<open>ATOMIC\<close>, writing a log row
  each time, and no bound is enough.
\<close>

lemma mock_uuid_inj: "uuidv4 (mock_env emb answer) k = uuidv4 (mock_env emb answer) j \<Longrightarrow> k = j"
proof -
  assume "uuidv4 (mock_env emb answer) k = uuidv4 (mock_env emb answer) j"
  then have "replicate k (CHR ''x'') = replicate j (CHR ''x'')"
    by (simp add: mock_env_def)
  then have "length (replicate k (CHR ''x'')) = length (replicate j (CHR ''x''))"
    by simp
  then show "k = j" by simp
qed

lemma logExecution_fresh:
  assumes "ids_drawn (mock_env emb answer) w"
  shows "\<exists>l w'. logExecution (mock_env emb answer) entry w = (Inr l, w')
           \<and> ids_drawn (mock_env emb answer) w'"
proof -
  let ?e = "mock_env emb answer"
  have fresh: "\<not> (\<exists>r' \<in> set (execution_logs w). col r' ''id'' = SText (uuidv4 ?e (uuids_drawn w)))"
  proof
    assume "\<exists>r' \<in> set (execution_logs w). col r' ''id'' = SText (uuidv4 ?e (uuids_drawn w))"
    then obtain r' where r': "r' \<in> set (execution_logs w)"
      and c: "col r' ''id'' = SText (uuidv4 ?e (uuids_drawn w))" by blast
    from assms r' obtain k where "k < uuids_drawn w" and "col r' ''id'' = SText (uuidv4 ?e k)"
      by (auto simp: ids_drawn_def)
    with c have "uuidv4 ?e k = uuidv4 ?e (uuids_drawn w)" by simp
    then have "k = uuids_drawn w" by (rule mock_uuid_inj)
    with \<open>k < uuids_drawn w\<close> show False by simp
  qed
  have row: "values_row (columns execution_logs_schema) [SText i, a, b, c, d, f, g, h, j, k]
     = [(''id'', SText i), (''questId'', a), (''level'', b), (''input'', c), (''output'', d),
        (''durationMs'', f), (''status'', g), (''timestamp'', h), (''toolCalls'', j),
        (''error'', k)]" for i a b c d f g h j k
    by (simp add: values_row_def param_def execution_logs_schema_def)
  have key: "same_key execution_logs_schema ((''id'', SText i) # rest) r' = (col r' ''id'' = SText i)"
    for i rest r'
    by (auto simp: same_key_def sql_eq_def execution_logs_schema_def col_Cons)
  have nn: "not_null_violation execution_logs_schema
       [(''id'', SText i), (''questId'', SText a), (''level'', SText b), (''input'', SText c),
        (''output'', SText d), (''durationMs'', SInt f), (''status'', SText g),
        (''timestamp'', SDate h), (''toolCalls'', j), (''error'', k)] = None" for i a b c d f g h j k
    by (simp add: not_null_violation_def execution_logs_schema_def col_Cons)
  show ?thesis
    using fresh assms
    by (auto simp: logExecution_def new_uuid_def Date_now_def Let_def row sql_insert_def key nn
        LogInput.extend_def ids_drawn_def col_Cons less_Suc_eq)
qed


lemma attempt_retry:
  assumes "currentState c \<noteq> DONE"
  shows "snd (attempt e retry_pyramid c w) = w
       \<and> currentState (fst (fst (attempt e retry_pyramid c w))) \<noteq> DONE"
  using assms
  by (cases "currentState c")
     (simp_all add: attempt_def retry_pyramid_def mock_pyramid_def after_atomic_def retry_result_def)

lemma iteration_retry:
  assumes inv: "ids_drawn (mock_env emb answer) w" and run: "currentState c \<noteq> DONE"
  shows "\<exists>c' w'. iteration (mock_env emb answer) retry_pyramid c w = (Inr c', w')
           \<and> currentState c' \<noteq> DONE \<and> ids_drawn (mock_env emb answer) w'"
proof -
  let ?e = "mock_env emb answer"
  let ?w1 = "snd (Date_now ?e w)"
  obtain c' a where att: "attempt ?e retry_pyramid c ?w1 = ((c', a), ?w1)"
    using attempt_retry [OF run, of ?e ?w1] by (metis prod.collapse)
  with attempt_retry [OF run, of ?e ?w1] have c': "currentState c' \<noteq> DONE"
    by simp
  let ?w3 = "snd (Date_now ?e ?w1)"
  have "ids_drawn ?e ?w3"
    using inv by (simp add: ids_drawn_def Date_now_def)
  from logExecution_fresh [OF this] obtain l w' where
    "logExecution ?e (logEntry_of ?e (quest_id (quest retry_pyramid)) c' a
        (fst (Date_now ?e ?w1) - fst (Date_now ?e w))) ?w3 = (Inr l, w')"
    and "ids_drawn ?e w'"
    by blast
  with att c' show ?thesis
    by (simp add: iteration_def Let_def case_prod_beta)
qed

lemma retry_loop_never_ends:
  "ids_drawn (mock_env emb answer) w \<Longrightarrow> currentState c \<noteq> DONE \<Longrightarrow>
   coordinate_loop n (mock_env emb answer) retry_pyramid c w = None"
proof (induction n arbitrary: c w)
  case 0
  then show ?case by (simp add: coordinate_loop_0)
next
  case (Suc n)
  from iteration_retry [OF Suc.prems] obtain c' w' where
    "iteration (mock_env emb answer) retry_pyramid c w = (Inr c', w')"
    and "currentState c' \<noteq> DONE" and "ids_drawn (mock_env emb answer) w'"
    by blast
  with Suc.IH [of w' c'] Suc.prems show ?case
    by (simp add: coordinate_loop_Suc)
qed

lemma coordinate_may_run_forever:
  "coordinate n (mock_env emb answer) retry_pyramid empty_world = None"
  by (simp add: coordinate_def retry_loop_never_ends ids_drawn_def empty_world_def
      new_LevelCoordinator_def)

end
